theory Spec2Isabelle
  imports Complex_Main "HOL-Library.Word" "HOL-Library.Log_Nat"
begin

section \<open>Values of the Go runtime\<close>

text \<open>
  The program is two Go files: \<^verbatim>\<open>handler.go\<close> (the struct \<^verbatim>\<open>airGradientData\<close> and the HTTP
  handler \<^verbatim>\<open>mainHandler\<close>) and \<^verbatim>\<open>main.go\<close> (the configuration structs, \<^verbatim>\<open>InfluxConnect\<close>
  and \<^verbatim>\<open>main\<close>).

  A \<^verbatim>\<open>float64\<close> is its 64 bits and a \<^verbatim>\<open>time.Time\<close> is an instant, counted from the
  zero \<^verbatim>\<open>Time\<close>. The program only stores and forwards such values; it never computes with
  them. Go's \<^verbatim>\<open>int\<close> and \<^verbatim>\<open>uint\<close> are taken at 64 bits: an \<^verbatim>\<open>int\<close> field holds a HOL
  integer that \<open>ParseInt\<close> below has checked to be in range (the program does no
  arithmetic on these fields), and the \<^verbatim>\<open>uint\<close> flush interval, which is multiplied, is a
  64-bit word.
\<close>

datatype float64 = Float64 (bits: "64 word")

datatype time = Time (sinceZero: int)

definition zeroFloat :: float64 where
  "zeroFloat = Float64 0"

definition zeroTime :: time where
  "zeroTime = Time 0"

section \<open>handler.go: the measurement struct\<close>

text \<open>
  \<^verbatim>\<open>type airGradientData struct { Id string `json:"-"`; Ts time.Time; Wifi int `json:"wifi"`; ... }\<close>
  The field \<^verbatim>\<open>Id\<close> is written \<open>Id'\<close> here (\<open>Id\<close> is the identity relation of HOL).
\<close>

record airGradientData =
  Id' :: string
  Ts :: time
  Wifi :: int
  C02 :: int
  PM01 :: int
  PM02 :: int
  PM10 :: int
  PM003 :: int
  TVOC :: int
  NOX :: int
  Temp :: float64
  Hum :: int

text \<open>\<^verbatim>\<open>var data airGradientData\<close>: every field at its zero value.\<close>

definition zeroData :: airGradientData where
  "zeroData = \<lparr>Id' = [], Ts = zeroTime, Wifi = 0, C02 = 0, PM01 = 0, PM02 = 0, PM10 = 0,
     PM003 = 0, TVOC = 0, NOX = 0, Temp = zeroFloat, Hum = 0\<rparr>"

section \<open>encoding/json as the handler uses it\<close>

text \<open>
  \<^verbatim>\<open>json.Unmarshal(b, &data)\<close> first checks that the bytes are one JSON text and then stores
  the value into the struct. The bytes of a body are modelled by what that check finds:
  \<open>NotJSON\<close> (a syntax error: \<^verbatim>\<open>Unmarshal\<close> returns a \<^verbatim>\<open>SyntaxError\<close>), or the JSON value
  they spell. A number carries its literal text, as the decoder hands it to \<^verbatim>\<open>strconv\<close>; a
  string value carries the text between its quotes, as \<^verbatim>\<open>Time.UnmarshalJSON\<close> receives it;
  an object is its members in the order of the text, keys unquoted, duplicates kept.
\<close>

datatype json =
    JNull
  | JBool bool
  | JNumber string
  | JString string
  | JArray "json list"
  | JObject "(string \<times> json) list"

datatype bytes = NotJSON | JSONText json

datatype json_error = SyntaxError | UnmarshalTypeError | TimeError

text \<open>
  Two conversions of the standard library are parameters of the model:
  \<^verbatim>\<open>strconv.ParseFloat(s, 64)\<close> (\<open>None\<close>: it returns an error) and the RFC 3339 parser
  behind \<^verbatim>\<open>Time.UnmarshalJSON\<close> (\<open>None\<close>: it returns an error).
\<close>

record stdlib =
  ParseFloat :: "string \<Rightarrow> float64 option"
  ParseTime :: "string \<Rightarrow> time option"

subsection \<open>strconv.ParseInt(s, 10, 64)\<close>

definition isDigit :: "char \<Rightarrow> bool" where
  "isDigit c = (c \<in> set ''0123456789'')"

definition digitVal :: "char \<Rightarrow> nat" where
  "digitVal c = of_char c - 48"

text \<open>The digit loop of \<^verbatim>\<open>ParseUint\<close>: a byte that is no digit is a syntax error, a value
  above \<open>2^64 - 1\<close> a range error.\<close>

fun ParseUint :: "string \<Rightarrow> nat \<Rightarrow> nat option" where
  "ParseUint [] n = Some n"
| "ParseUint (c # cs) n =
     (if \<not> isDigit c then None
      else let n1 = 10 * n + digitVal c in
        if n1 \<ge> 2 ^ 64 then None else ParseUint cs n1)"

fun ParseInt :: "string \<Rightarrow> int option" where
  "ParseInt [] = None"
| "ParseInt (c # cs) =
     (let neg = (c = CHR ''-'');
          s = (if c = CHR ''+'' \<or> c = CHR ''-'' then cs else c # cs)
      in if s = [] then None
         else (case ParseUint s 0 of
                 None \<Rightarrow> None
               | Some un \<Rightarrow>
                   if \<not> neg \<and> un \<ge> 2 ^ 63 then None
                   else if neg \<and> un > 2 ^ 63 then None
                   else Some (if neg then - int un else int un)))"

subsection \<open>Matching an object key to a struct field\<close>

text \<open>
  The decoder looks a key up by its exact name and then by its folded name. Folding maps
  ASCII letters to upper case and every other rune to the least rune of its case orbit;
  the only runes outside ASCII that fold into ASCII are U+017F (bytes C5 BF), to \<open>S\<close>,
  and U+212A (bytes E2 84 AA), to \<open>K\<close>.
\<close>

definition asciiUpper :: "char \<Rightarrow> char" where
  "asciiUpper c =
     (case map_of (zip ''abcdefghijklmnopqrstuvwxyz'' ''ABCDEFGHIJKLMNOPQRSTUVWXYZ'') c of
        Some u \<Rightarrow> u
      | None \<Rightarrow> c)"

fun foldName :: "string \<Rightarrow> string" where
  "foldName (a # b # c # cs) =
     (if a = CHR 0xE2 \<and> b = CHR 0x84 \<and> c = CHR 0xAA then CHR ''K'' # foldName cs
      else if a = CHR 0xC5 \<and> b = CHR 0xBF then CHR ''S'' # foldName (c # cs)
      else asciiUpper a # foldName (b # c # cs))"
| "foldName [a, b] =
     (if a = CHR 0xC5 \<and> b = CHR 0xBF then [CHR ''S'']
      else asciiUpper a # foldName [b])"
| "foldName [a] = [asciiUpper a]"
| "foldName [] = []"

datatype field =
    FTs | FWifi | FC02 | FPM01 | FPM02 | FPM10 | FPM003 | FTVOC | FNOX | FTemp | FHum

text \<open>The fields the decoder sees, in the order of the struct, under their JSON names.
  \<^verbatim>\<open>Id\<close> is tagged \<^verbatim>\<open>json:"-"\<close> and is not among them; \<^verbatim>\<open>Ts\<close> has no tag and goes by its Go
  name.\<close>

definition structFields :: "(string \<times> field) list" where
  "structFields =
     [(''Ts'', FTs), (''wifi'', FWifi), (''rco2'', FC02), (''pm01'', FPM01),
      (''pm02'', FPM02), (''pm10'', FPM10), (''pm003_count'', FPM003),
      (''tvoc_index'', FTVOC), (''nox_index'', FNOX), (''atmp'', FTemp), (''rhum'', FHum)]"

definition findField :: "string \<Rightarrow> field option" where
  "findField key =
     (case map_of structFields key of
        Some f \<Rightarrow> Some f
      | None \<Rightarrow> map_option snd (find (\<lambda>(n, f). foldName n = foldName key) structFields))"

subsection \<open>Storing a value into a field\<close>

datatype kind = KTime | KInt | KFloat

fun kindOf :: "field \<Rightarrow> kind" where
  "kindOf FTs = KTime"
| "kindOf FTemp = KFloat"
| "kindOf f = KInt"

fun SetInt :: "field \<Rightarrow> int \<Rightarrow> airGradientData \<Rightarrow> airGradientData" where
  "SetInt FWifi n d = d\<lparr>Wifi := n\<rparr>"
| "SetInt FC02 n d = d\<lparr>C02 := n\<rparr>"
| "SetInt FPM01 n d = d\<lparr>PM01 := n\<rparr>"
| "SetInt FPM02 n d = d\<lparr>PM02 := n\<rparr>"
| "SetInt FPM10 n d = d\<lparr>PM10 := n\<rparr>"
| "SetInt FPM003 n d = d\<lparr>PM003 := n\<rparr>"
| "SetInt FTVOC n d = d\<lparr>TVOC := n\<rparr>"
| "SetInt FNOX n d = d\<lparr>NOX := n\<rparr>"
| "SetInt FHum n d = d\<lparr>Hum := n\<rparr>"
| "SetInt f n d = d"

text \<open>The decoder's state: the struct being filled and \<^verbatim>\<open>d.savedError\<close>. A value of the
  wrong type for an \<^verbatim>\<open>int\<close> or \<^verbatim>\<open>float64\<close> field is skipped and the first such error is
  saved; an error of \<^verbatim>\<open>Time.UnmarshalJSON\<close> aborts the decoding. \<^verbatim>\<open>null\<close> leaves every
  field of this struct as it is.\<close>

type_synonym decodeState = "airGradientData \<times> json_error option"

definition saveError :: "json_error \<Rightarrow> decodeState \<Rightarrow> decodeState" where
  "saveError e st = (case snd st of None \<Rightarrow> (fst st, Some e) | Some e0 \<Rightarrow> st)"

definition storeTime :: "stdlib \<Rightarrow> json \<Rightarrow> decodeState \<Rightarrow> json_error + decodeState" where
  "storeTime L v st =
     (case v of
        JNull \<Rightarrow> Inr st
      | JString s \<Rightarrow>
          (case ParseTime L s of
             Some t \<Rightarrow> Inr ((fst st)\<lparr>Ts := t\<rparr>, snd st)
           | None \<Rightarrow> Inl TimeError)
      | _ \<Rightarrow> Inl TimeError)"

definition storeInt :: "field \<Rightarrow> json \<Rightarrow> decodeState \<Rightarrow> json_error + decodeState" where
  "storeInt f v st =
     (case v of
        JNull \<Rightarrow> Inr st
      | JNumber s \<Rightarrow>
          (case ParseInt s of
             Some n \<Rightarrow> Inr (SetInt f n (fst st), snd st)
           | None \<Rightarrow> Inr (saveError UnmarshalTypeError st))
      | _ \<Rightarrow> Inr (saveError UnmarshalTypeError st))"

definition storeFloat :: "stdlib \<Rightarrow> json \<Rightarrow> decodeState \<Rightarrow> json_error + decodeState" where
  "storeFloat L v st =
     (case v of
        JNull \<Rightarrow> Inr st
      | JNumber s \<Rightarrow>
          (case ParseFloat L s of
             Some x \<Rightarrow> Inr ((fst st)\<lparr>Temp := x\<rparr>, snd st)
           | None \<Rightarrow> Inr (saveError UnmarshalTypeError st))
      | _ \<Rightarrow> Inr (saveError UnmarshalTypeError st))"

definition storeValue ::
  "stdlib \<Rightarrow> field \<Rightarrow> json \<Rightarrow> decodeState \<Rightarrow> json_error + decodeState" where
  "storeValue L f v st =
     (case kindOf f of
        KTime \<Rightarrow> storeTime L v st
      | KInt \<Rightarrow> storeInt f v st
      | KFloat \<Rightarrow> storeFloat L v st)"

text \<open>The members of an object, in order; a key that matches no field is skipped.\<close>

fun object :: "stdlib \<Rightarrow> (string \<times> json) list \<Rightarrow> decodeState \<Rightarrow> json_error + decodeState" where
  "object L [] st = Inr st"
| "object L ((key, v) # ms) st =
     (case findField key of
        None \<Rightarrow> object L ms st
      | Some f \<Rightarrow>
          (case storeValue L f v st of
             Inl e \<Rightarrow> Inl e
           | Inr st' \<Rightarrow> object L ms st'))"

text \<open>\<^verbatim>\<open>json.Unmarshal(b, &data)\<close> on a struct of this type: only the error and, without an
  error, the struct are used by the handler.\<close>

definition Unmarshal :: "stdlib \<Rightarrow> bytes \<Rightarrow> airGradientData \<Rightarrow> json_error + airGradientData" where
  "Unmarshal L b data =
     (case b of
        NotJSON \<Rightarrow> Inl SyntaxError
      | JSONText v \<Rightarrow>
          (case v of
             JNull \<Rightarrow> Inr data
           | JObject ms \<Rightarrow>
               (case object L ms (data, None) of
                  Inl e \<Rightarrow> Inl e
                | Inr (d, None) \<Rightarrow> Inr d
                | Inr (d, Some e) \<Rightarrow> Inl e)
           | _ \<Rightarrow> Inl UnmarshalTypeError))"

section \<open>handler.go: mainHandler\<close>

text \<open>
  A request, as the handler reads it: \<^verbatim>\<open>io.ReadAll(r.Body)\<close> (\<open>None\<close>: it returns an error),
  \<^verbatim>\<open>mux.Vars(r)\<close>, and the clock value \<^verbatim>\<open>time.Now()\<close> returns while the request is handled.
\<close>

record request =
  Body :: "bytes option"
  Vars :: "string \<rightharpoonup> string"
  Now :: time

record response =
  status :: nat
  contentType :: "string option"
  body :: string

definition StatusOK :: nat where
  "StatusOK = 200"

definition StatusBadRequest :: nat where
  "StatusBadRequest = 400"

text \<open>\<^verbatim>\<open>http.Error(w, msg, code)\<close>: plain text, the message and a newline.\<close>

definition http_Error :: "string \<Rightarrow> nat \<Rightarrow> response" where
  "http_Error msg code =
     \<lparr>status = code, contentType = Some ''text/plain; charset=utf-8'', body = msg @ [CHR 0x0A]\<rparr>"

text \<open>A handler that returns without writing: the server answers 200 with no body.\<close>

definition noResponse :: response where
  "noResponse = \<lparr>status = StatusOK, contentType = None, body = []\<rparr>"

text \<open>\<^verbatim>\<open>strings.Split(s, sep)\<close> for a separator of one byte, as the handler calls it.\<close>

fun Split :: "string \<Rightarrow> char \<Rightarrow> string list" where
  "Split [] sep = [[]]"
| "Split (c # cs) sep =
     (if c = sep then [] # Split cs sep
      else (case Split cs sep of
              p # ps \<Rightarrow> (c # p) # ps
            | [] \<Rightarrow> [[c]]))"

definition instanceId :: "(string \<rightharpoonup> string) \<Rightarrow> string" where
  "instanceId vars =
     (case vars ''id'' of
        Some ident \<Rightarrow>
          (let splitted = Split ident (CHR '':'')
           in if length splitted = 2 then splitted ! 1 else ''null'')
      | None \<Rightarrow> ''null'')"

text \<open>
  The handler: its effect is the response and the channel. The channel \<^verbatim>\<open>dataChannel\<close> is
  the list of the values sent and not yet received, oldest first; a send appends. (The
  channel of \<^verbatim>\<open>main\<close> has capacity one and a send waits for room: that waiting is not part of
  this model.) The two \<^verbatim>\<open>log\<close> calls have no effect on the response or the channel.
\<close>

definition mainHandler ::
  "stdlib \<Rightarrow> request \<Rightarrow> airGradientData list \<Rightarrow> response \<times> airGradientData list" where
  "mainHandler L r dataChannel =
     (case Body r of
        None \<Rightarrow> (http_Error ''cannot read body'' StatusBadRequest, dataChannel)
      | Some b \<Rightarrow>
          (case Unmarshal L b zeroData of
             Inl err \<Rightarrow> (http_Error ''failed to unmarshal'' StatusBadRequest, dataChannel)
           | Inr data \<Rightarrow>
               (noResponse,
                dataChannel @ [data\<lparr>Id' := instanceId (Vars r), Ts := Now r\<rparr>])))"

section \<open>main.go: the writer\<close>

text \<open>A field value of a point is an \<^verbatim>\<open>interface{}\<close>: here an \<^verbatim>\<open>int\<close> or a \<^verbatim>\<open>float64\<close>.\<close>

datatype fieldValue = IntValue int | FloatValue float64

record Point =
  measurement :: string
  tags :: "string \<rightharpoonup> string"
  fieldMap :: "string \<rightharpoonup> fieldValue"
  timestamp :: time

definition NewPoint ::
  "string \<Rightarrow> (string \<rightharpoonup> string) \<Rightarrow> (string \<rightharpoonup> fieldValue) \<Rightarrow> time \<Rightarrow> Point" where
  "NewPoint m ts fs t = \<lparr>measurement = m, tags = ts, fieldMap = fs, timestamp = t\<rparr>"

definition influxPoint :: "airGradientData \<Rightarrow> Point" where
  "influxPoint dataPoint =
     NewPoint ''air_quality''
       [''id'' \<mapsto> Id' dataPoint]
       [''wifi'' \<mapsto> IntValue (Wifi dataPoint),
        ''co2'' \<mapsto> IntValue (C02 dataPoint),
        ''pm1'' \<mapsto> IntValue (PM01 dataPoint),
        ''pm25'' \<mapsto> IntValue (PM02 dataPoint),
        ''pm10'' \<mapsto> IntValue (PM10 dataPoint),
        ''pm003'' \<mapsto> IntValue (PM003 dataPoint),
        ''tvoc'' \<mapsto> IntValue (TVOC dataPoint),
        ''nox'' \<mapsto> IntValue (NOX dataPoint),
        ''temp'' \<mapsto> FloatValue (Temp dataPoint),
        ''rel_humidity'' \<mapsto> IntValue (Hum dataPoint)]
       (Ts dataPoint)"

text \<open>\<^verbatim>\<open>for dataPoint := range dataCh { ...; writeAPI.WritePoint(influxPoint) }\<close>: the loop
  receives the values of the channel in order; its effect is the list of the points
  handed to \<^verbatim>\<open>WritePoint\<close>.\<close>

fun submitResults :: "airGradientData list \<Rightarrow> Point list \<Rightarrow> Point list" where
  "submitResults [] written = written"
| "submitResults (dataPoint # dataCh) written =
     submitResults dataCh (written @ [influxPoint dataPoint])"

section \<open>main.go: configuration and InfluxConnect\<close>

record Server =
  ListenAddr :: string

record InfluxDB =
  Address :: string
  Username :: string
  Password :: string
  MeasurementPrefix :: string
  Database :: string
  RetentionPolicy :: string
  Token :: string
  Organization :: string
  Bucket :: string
  SkipVerifySsl :: bool
  FlushInterval :: "64 word"

record Configuration =
  Server :: Server
  InfluxDB :: InfluxDB

datatype config_error = InfluxWriteConfigError

text \<open>The client, by what \<^verbatim>\<open>influx.NewClientWithOptions(address, auth, options)\<close> was given,
  and the write API, by what \<^verbatim>\<open>client.WriteAPI(org, writeDest)\<close> was given.\<close>

record Client =
  serverURL :: string
  authToken :: string
  flushInterval :: "64 word"
  insecureSkipVerify :: bool

record WriteAPI =
  org :: string
  bucket :: string

definition auth :: "Configuration \<Rightarrow> string" where
  "auth config =
     (if Token (InfluxDB config) \<noteq> [] then Token (InfluxDB config)
      else if Username (InfluxDB config) \<noteq> [] \<and> Password (InfluxDB config) \<noteq> []
        then Username (InfluxDB config) @ '':'' @ Password (InfluxDB config)
      else [])"

definition writeDest :: "Configuration \<Rightarrow> config_error + string" where
  "writeDest config =
     (if Bucket (InfluxDB config) \<noteq> [] then Inr (Bucket (InfluxDB config))
      else if Database (InfluxDB config) \<noteq> [] \<and> RetentionPolicy (InfluxDB config) \<noteq> []
        then Inr (Database (InfluxDB config) @ ''/'' @ RetentionPolicy (InfluxDB config))
      else Inl InfluxWriteConfigError)"

text \<open>\<^verbatim>\<open>InfluxConnect\<close> writes the default flush interval into the configuration it was
  given a pointer to: the configuration after the call is part of the result.\<close>

definition InfluxConnect ::
  "Configuration \<Rightarrow> config_error + (Client \<times> WriteAPI \<times> Configuration)" where
  "InfluxConnect config =
     (case writeDest config of
        Inl err \<Rightarrow> Inl err
      | Inr dest \<Rightarrow>
          (let config1 =
                 (if FlushInterval (InfluxDB config) = 0
                  then config\<lparr>InfluxDB := (InfluxDB config)\<lparr>FlushInterval := 30\<rparr>\<rparr>
                  else config);
               client =
                 \<lparr>serverURL = Address (InfluxDB config1),
                  authToken = auth config,
                  flushInterval = 1000 * FlushInterval (InfluxDB config1),
                  insecureSkipVerify = SkipVerifySsl (InfluxDB config1)\<rparr>;
               writeAPI = \<lparr>org = Organization (InfluxDB config1), bucket = dest\<rparr>
           in Inr (client, writeAPI, config1)))"

section \<open>main.go: main\<close>

text \<open>
  The requests of a run, each handled to its end in the order of the list, and then the
  writer loop over what they sent. (In the program the handlers, the writer and the
  listener run concurrently; this is one of its schedules, and the claims below about
  \<open>serve\<close> are about the values that flow, not about the interleaving.)
\<close>

fun serve ::
  "stdlib \<Rightarrow> request list \<Rightarrow> airGradientData list \<Rightarrow> response list \<times> airGradientData list" where
  "serve L [] dataCh = ([], dataCh)"
| "serve L (r # rs) dataCh =
     (case mainHandler L r dataCh of
        (resp, dataCh1) \<Rightarrow>
          (case serve L rs dataCh1 of
             (resps, dataCh2) \<Rightarrow> (resp # resps, dataCh2)))"

record served =
  listenAddr :: string
  influxClient :: Client
  writeAPI :: WriteAPI
  responses :: "response list"
  written :: "Point list"

text \<open>How a run ends: \<^verbatim>\<open>log.Fatal\<close> before the router and the server exist, or the flush
  after a signal.\<close>

datatype exit = Fatal string | Flushed served

definition main :: "stdlib \<Rightarrow> string + Configuration \<Rightarrow> request list \<Rightarrow> exit" where
  "main L loaded requests =
     (case loaded of
        Inl err \<Rightarrow> Fatal ''failed to load configuration''
      | Inr config \<Rightarrow>
          (case InfluxConnect config of
             Inl err \<Rightarrow> Fatal ''failed to initialize InfluxDB connection''
           | Inr (client, api, config1) \<Rightarrow>
               (case serve L requests [] of
                  (resps, dataCh) \<Rightarrow>
                    Flushed \<lparr>listenAddr = ListenAddr (Server config1),
                             influxClient = client,
                             writeAPI = api,
                             responses = resps,
                             written = submitResults dataCh []\<rparr>)))"

section \<open>The route, and reading the struct\<close>

text \<open>
  \<^verbatim>\<open>r.HandleFunc("/sensors/{id}/measures", mainHandler(dataCh))\<close>: the router calls the handler
  for a path of the three segments \<^verbatim>\<open>sensors\<close>, a non-empty \<^verbatim>\<open>{id}\<close> without a slash, and
  \<^verbatim>\<open>measures\<close>, with the variable \<^verbatim>\<open>id\<close> bound to the middle one. \<open>None\<close>: the path is not
  of this route and the handler is not called.
\<close>

definition routeVars :: "string \<Rightarrow> (string \<rightharpoonup> string) option" where
  "routeVars path =
     (case Split path (CHR ''/'') of
        [e, s, ident, m] \<Rightarrow>
          if e = [] \<and> s = ''sensors'' \<and> ident \<noteq> [] \<and> m = ''measures''
          then Some [''id'' \<mapsto> ident] else None
      | _ \<Rightarrow> None)"

text \<open>The content of a field of the struct, by the decoder's name for the field.\<close>

datatype cell = TimeCell time | IntCell int | FloatCell float64

fun cellOf :: "field \<Rightarrow> airGradientData \<Rightarrow> cell" where
  "cellOf FTs d = TimeCell (Ts d)"
| "cellOf FWifi d = IntCell (Wifi d)"
| "cellOf FC02 d = IntCell (C02 d)"
| "cellOf FPM01 d = IntCell (PM01 d)"
| "cellOf FPM02 d = IntCell (PM02 d)"
| "cellOf FPM10 d = IntCell (PM10 d)"
| "cellOf FPM003 d = IntCell (PM003 d)"
| "cellOf FTVOC d = IntCell (TVOC d)"
| "cellOf FNOX d = IntCell (NOX d)"
| "cellOf FTemp d = FloatCell (Temp d)"
| "cellOf FHum d = IntCell (Hum d)"

text \<open>The fields that the members of an object are stored into: a field outside this set
  is omitted from the body.\<close>

definition storedFields :: "(string \<times> json) list \<Rightarrow> field set" where
  "storedFields ms = {f. Some f \<in> findField ` fst ` set ms}"

text \<open>When the decoder takes a value for a field without an error.\<close>

definition accepts :: "stdlib \<Rightarrow> field \<Rightarrow> json \<Rightarrow> bool" where
  "accepts L f v =
     (case v of
        JNull \<Rightarrow> True
      | JNumber s \<Rightarrow>
          (case kindOf f of
             KTime \<Rightarrow> False
           | KInt \<Rightarrow> ParseInt s \<noteq> None
           | KFloat \<Rightarrow> ParseFloat L s \<noteq> None)
      | JString s \<Rightarrow> kindOf f = KTime \<and> ParseTime L s \<noteq> None
      | _ \<Rightarrow> False)"

text \<open>The bodies that \<open>Unmarshal\<close> decodes without an error: \<^verbatim>\<open>null\<close>, and an object in
  which every member that matches a field has a value the field accepts.\<close>

definition decodes :: "stdlib \<Rightarrow> bytes \<Rightarrow> bool" where
  "decodes L b =
     (case b of
        NotJSON \<Rightarrow> False
      | JSONText v \<Rightarrow>
          (case v of
             JNull \<Rightarrow> True
           | JObject ms \<Rightarrow>
               list_all (\<lambda>(k, v). case findField k of None \<Rightarrow> True | Some f \<Rightarrow> accepts L f v) ms
           | _ \<Rightarrow> False))"

section \<open>strconv.ParseFloat on a JSON number\<close>


text \<open>
  A JSON number literal: an optional minus sign, digits, an optional fraction (a point and
  digits) and an optional exponent (\<^verbatim>\<open>e\<close> or \<^verbatim>\<open>E\<close>, an optional sign and digits). It is read as
  a sign, the integer of all its digits and a power of ten.
\<close>

datatype number = Number (negative: bool) (mantissa: nat) (exponent10: int)



text \<open>The value of a number, as the fraction \<open>numerator / denominator\<close> with its sign.\<close>

definition numerator :: "number \<Rightarrow> nat" where
  "numerator x = mantissa x * 10 ^ nat (exponent10 x)"

definition denominator :: "number \<Rightarrow> nat" where
  "denominator x = 10 ^ nat (- exponent10 x)"

definition magnitude :: "number \<Rightarrow> rat" where
  "magnitude x = of_nat (numerator x) / of_nat (denominator x)"


text \<open>
  \<^verbatim>\<open>strconv.ParseFloat(s, 64)\<close> on a JSON number literal, by its documentation: the nearest
  \<^verbatim>\<open>float64\<close>, rounded with IEEE 754 unbiased rounding (ties to even), and a range error
  for a value more than half a unit in the last place beyond the largest \<^verbatim>\<open>float64\<close>.
  \<open>atLeastPow2 n d k\<close> tests \<open>2^k \<le> n / d\<close>; \<open>log2floor n d\<close> is the binary exponent of
  \<open>n / d\<close>; \<open>roundBinary64 n d\<close> is the significand \<open>m < 2^53\<close> and the exponent
  \<open>e \<ge> -1074\<close> of the rounded value \<open>m * 2^e\<close>, or \<open>None\<close> for the range error;
  \<open>packBits\<close> packs sign, exponent and significand into the 64 bits.
\<close>

definition atLeastPow2 :: "nat \<Rightarrow> nat \<Rightarrow> int \<Rightarrow> bool" where
  "atLeastPow2 n d k = (if 0 \<le> k then d * 2 ^ nat k \<le> n else d \<le> n * 2 ^ nat (- k))"

definition log2floor :: "nat \<Rightarrow> nat \<Rightarrow> int" where
  "log2floor n d =
     (let k = int (floorlog 2 n) - int (floorlog 2 d)
      in if atLeastPow2 n d k then k else k - 1)"

definition roundHalfEven :: "nat \<Rightarrow> nat \<Rightarrow> nat" where
  "roundHalfEven a b =
     (let q = a div b; r = a mod b
      in if 2 * r < b then q
         else if b < 2 * r then q + 1
         else if even q then q else q + 1)"

definition scaledRound :: "nat \<Rightarrow> nat \<Rightarrow> int \<Rightarrow> nat" where
  "scaledRound n d e =
     (if 0 \<le> e then roundHalfEven n (d * 2 ^ nat e) else roundHalfEven (n * 2 ^ nat (- e)) d)"

definition roundBinary64 :: "nat \<Rightarrow> nat \<Rightarrow> (nat \<times> int) option" where
  "roundBinary64 n d =
     (if n = 0 then Some (0, - 1074)
      else let e = max (log2floor n d - 52) (- 1074);
               m = scaledRound n d e;
               e1 = (if m = 2 ^ 53 then e + 1 else e);
               m1 = (if m = 2 ^ 53 then 2 ^ 52 else m)
           in if 971 < e1 then None else Some (m1, e1))"




section \<open>The measurement schema of the specification\<close>













section \<open>Sample values\<close>

text \<open>The two library conversions at the literals of the examples below (the bits of the
  \<^verbatim>\<open>float64\<close> nearest to 32.07, and an instant of May 2024); \<open>None\<close> elsewhere.\<close>

definition sampleLib :: stdlib where
  "sampleLib =
     \<lparr>ParseFloat = (\<lambda>s. if s = ''32.07'' then Some (Float64 0x404008F5C28F5C29) else None),
      ParseTime = (\<lambda>s. if s = ''2024-05-01T12:00:00Z'' then Some (Time 63850161600000000000)
                        else None)\<rparr>"


text \<open>The example point of \<^verbatim>\<open>handler.go\<close> and of the specification.\<close>

definition exampleBody :: json where
  "exampleBody =
     JObject
       [(''wifi'', JNumber ''-64''), (''rco2'', JNumber ''419''), (''pm01'', JNumber ''4''),
        (''pm02'', JNumber ''7''), (''pm10'', JNumber ''7''), (''pm003_count'', JNumber ''834''),
        (''tvoc_index'', JNumber ''3''), (''nox_index'', JNumber ''2''),
        (''atmp'', JNumber ''32.07''), (''rhum'', JNumber ''56'')]"

definition exampleRequest :: "time \<Rightarrow> request" where
  "exampleRequest t =
     \<lparr>Body = Some (JSONText exampleBody),
      Vars = [''id'' \<mapsto> ''airgradient:office-1''],
      Now = t\<rparr>"

text \<open>\<^verbatim>\<open>config.yaml.example\<close>.\<close>

definition exampleConfig :: Configuration where
  "exampleConfig =
     \<lparr>Server = \<lparr>ListenAddr = ''0.0.0.0:19999''\<rparr>,
      InfluxDB =
        \<lparr>Address = ''https://127.0.0.1:8086'',
         Username = ''myuser'',
         Password = ''mypass'',
         MeasurementPrefix = ''prefix_'',
         Database = ''mydb'',
         RetentionPolicy = ''autogen'',
         Token = ''mytoken'',
         Organization = ''myorg'',
         Bucket = ''mybucket'',
         SkipVerifySsl = False,
         FlushInterval = 30\<rparr>\<rparr>"

section \<open>strings.Split\<close>

lemma Split_length: "length (Split s sep) = Suc (count_list s sep)"
  by (induction s) (auto split: list.splits)

lemma Split_no_sep: "sep \<notin> set a \<Longrightarrow> Split a sep = [a]"
  by (induction a) auto

lemma Split_append: "sep \<notin> set a \<Longrightarrow> Split (a @ sep # b) sep = a # Split b sep"
  by (induction a) auto

lemma Split_two: "sep \<notin> set a \<Longrightarrow> sep \<notin> set b \<Longrightarrow> Split (a @ sep # b) sep = [a, b]"
  by (simp add: Split_append Split_no_sep)

lemma count_one_decomp:
  assumes "count_list s sep = 1"
  shows "\<exists>a b. s = a @ sep # b \<and> sep \<notin> set a \<and> sep \<notin> set b"
proof -
  have "count_list s sep \<noteq> 0"
    unfolding assms by simp
  then have "sep \<in> set s"
    by (simp only: count_list_0_iff not_not)
  then obtain a b where s: "s = a @ sep # b" and a: "sep \<notin> set a"
    by (auto dest: split_list_first)
  have "count_list (a @ sep # b) sep = 1"
    using assms unfolding s .
  then have "count_list a sep + Suc (count_list b sep) = 1"
    by simp
  then have "count_list b sep = 0"
    by arith
  then have "sep \<notin> set b"
    by (simp add: count_list_0_iff)
  with s a show ?thesis by blast
qed

lemma Split_two_conv:
  assumes "Split s sep = [a, b]"
  shows "s = a @ sep # b \<and> sep \<notin> set a \<and> sep \<notin> set b"
proof -
  have "length (Split s sep) = 2" unfolding assms by simp
  then have "count_list s sep = 1" by (simp only: Split_length)
  from count_one_decomp [OF this]
  obtain a' b' where s: "s = a' @ sep # b'" and n: "sep \<notin> set a'" "sep \<notin> set b'"
    by blast
  have "Split (a' @ sep # b') sep = [a', b']"
    using n by (rule Split_two)
  then have "[a, b] = [a', b']"
    using assms unfolding s by simp
  then have "a' = a" "b' = b" by simp_all
  then show ?thesis using s n by simp
qed

lemma routeVars_segment:
  assumes "CHR ''/'' \<notin> set seg" and "seg \<noteq> []"
  shows "routeVars (''/sensors/'' @ seg @ ''/measures'') = Some [''id'' \<mapsto> seg]"
proof -
  have "Split (''/sensors/'' @ seg @ ''/measures'') (CHR ''/'') = [[], ''sensors'', seg, ''measures'']"
    using assms(1) by (simp add: Split_append)
  then show ?thesis
    using assms(2) by (simp add: routeVars_def)
qed

section \<open>The handler, case by case\<close>

lemma instanceId_two:
  "vars ''id'' = Some seg \<Longrightarrow> Split seg (CHR '':'') = [a, b] \<Longrightarrow> instanceId vars = b"
  by (simp add: instanceId_def)

lemma instanceId_other:
  "vars ''id'' = Some seg \<Longrightarrow> length (Split seg (CHR '':'')) \<noteq> 2 \<Longrightarrow> instanceId vars = ''null''"
  by (simp add: instanceId_def)

lemma instanceId_absent: "vars ''id'' = None \<Longrightarrow> instanceId vars = ''null''"
  by (simp add: instanceId_def)

lemma mainHandler_unreadable:
  "Body r = None \<Longrightarrow>
   mainHandler L r ch = (http_Error ''cannot read body'' StatusBadRequest, ch)"
  by (simp add: mainHandler_def)

lemma mainHandler_undecoded:
  "Body r = Some b \<Longrightarrow> Unmarshal L b zeroData = Inl e \<Longrightarrow>
   mainHandler L r ch = (http_Error ''failed to unmarshal'' StatusBadRequest, ch)"
  by (simp add: mainHandler_def)

lemma mainHandler_decoded:
  "Body r = Some b \<Longrightarrow> Unmarshal L b zeroData = Inr d \<Longrightarrow>
   mainHandler L r ch = (noResponse, ch @ [d\<lparr>Id' := instanceId (Vars r), Ts := Now r\<rparr>])"
  by (simp add: mainHandler_def)

lemma mainHandler_sent:
  assumes "mainHandler L r ch = (resp, ch')" and "ch' \<noteq> ch"
  shows "\<exists>b d. Body r = Some b \<and> Unmarshal L b zeroData = Inr d \<and> resp = noResponse \<and>
           ch' = ch @ [d\<lparr>Id' := instanceId (Vars r), Ts := Now r\<rparr>]"
  using assms by (auto simp: mainHandler_def split: option.splits sum.splits)

section \<open>Evaluating the examples\<close>

lemmas eval_defs = Unmarshal_def storeValue_def storeInt_def storeFloat_def storeTime_def
  saveError_def findField_def structFields_def asciiUpper_def isDigit_def digitVal_def
  zeroData_def zeroFloat_def zeroTime_def

lemma Unmarshal_exampleBody:
  "ParseFloat L ''32.07'' = Some x \<Longrightarrow>
   Unmarshal L (JSONText exampleBody) zeroData =
     Inr \<lparr>Id' = [], Ts = zeroTime, Wifi = - 64, C02 = 419, PM01 = 4, PM02 = 7, PM10 = 7,
          PM003 = 834, TVOC = 3, NOX = 2, Temp = x, Hum = 56\<rparr>"
  by (simp add: exampleBody_def eval_defs)

lemma sampleLib_float: "ParseFloat sampleLib ''32.07'' = Some (Float64 0x404008F5C28F5C29)"
  by (simp add: sampleLib_def)

lemma example_handled:
  "mainHandler sampleLib (exampleRequest t) [] =
     (noResponse, [\<lparr>Id' = ''office-1'', Ts = t, Wifi = - 64, C02 = 419, PM01 = 4, PM02 = 7, PM10 = 7,
          PM003 = 834, TVOC = 3, NOX = 2, Temp = Float64 0x404008F5C28F5C29, Hum = 56\<rparr>])"
  by (simp add: mainHandler_decoded [OF _ Unmarshal_exampleBody [OF sampleLib_float]]
           exampleRequest_def instanceId_def)

section \<open>ParseInt and the value of an integer literal\<close>





section \<open>What the decoder leaves alone\<close>


lemma cellOf_SetInt_other: "g \<noteq> f \<Longrightarrow> cellOf g (SetInt f n d) = cellOf g d"
  by (cases f; cases g) simp_all

lemma cellOf_Temp_other: "g \<noteq> FTemp \<Longrightarrow> cellOf g (d\<lparr>Temp := x\<rparr>) = cellOf g d"
  by (cases g) simp_all

lemma cellOf_Ts_other: "g \<noteq> FTs \<Longrightarrow> cellOf g (d\<lparr>Ts := t\<rparr>) = cellOf g d"
  by (cases g) simp_all

lemma saveError_fst: "fst (saveError e st) = fst st"
  by (simp add: saveError_def split: option.splits)

lemma storeValue_other:
  assumes "storeValue L f v st = Inr st'" and "g \<noteq> f"
  shows "cellOf g (fst st') = cellOf g (fst st)"
proof (cases "kindOf f")
  case KTime
  then have "f = FTs" by (cases f) simp_all
  with assms KTime show ?thesis
    by (auto simp: storeValue_def storeTime_def cellOf_Ts_other
             split: json.splits option.splits)
next
  case KInt
  with assms show ?thesis
    by (auto simp: storeValue_def storeInt_def cellOf_SetInt_other saveError_fst
             split: json.splits option.splits)
next
  case KFloat
  then have "f = FTemp" by (cases f) simp_all
  with assms KFloat show ?thesis
    by (auto simp: storeValue_def storeFloat_def cellOf_Temp_other saveError_fst
             split: json.splits option.splits)
qed

lemma object_unchanged:
  assumes "object L ms st = Inr st'" and "g \<notin> storedFields ms"
  shows "cellOf g (fst st') = cellOf g (fst st)"
  using assms
proof (induction ms arbitrary: st)
  case Nil
  then show ?case by simp
next
  case (Cons m ms)
  obtain k v where m: "m = (k, v)" by (cases m)
  from Cons.prems(2) have rest: "g \<notin> storedFields ms" and head: "findField k \<noteq> Some g"
    by (auto simp: storedFields_def m image_iff)
  show ?case
  proof (cases "findField k")
    case None
    with Cons.prems(1) m have "object L ms st = Inr st'" by simp
    from Cons.IH [OF this rest] show ?thesis .
  next
    case (Some f)
    with head have gf: "g \<noteq> f" by simp
    from Cons.prems(1) m Some obtain st1 where
      s1: "storeValue L f v st = Inr st1" and s2: "object L ms st1 = Inr st'"
      by (auto split: sum.splits)
    from Cons.IH [OF s2 rest] storeValue_other [OF s1 gf] show ?thesis by simp
  qed
qed

lemma Unmarshal_omitted:
  assumes "Unmarshal L (JSONText (JObject ms)) d0 = Inr d" and "g \<notin> storedFields ms"
  shows "cellOf g d = cellOf g d0"
proof -
  from assms(1) have "object L ms (d0, None) = Inr (d, None)"
    by (auto simp: Unmarshal_def split: sum.splits option.splits)
  from object_unchanged [OF this assms(2)] show ?thesis by simp
qed

section \<open>The writer\<close>

lemma submitResults_map: "submitResults dataCh ws = ws @ map influxPoint dataCh"
  by (induction dataCh arbitrary: ws) simp_all

lemma influxPoint_shape:
  "measurement (influxPoint p) = ''air_quality'' \<and>
   dom (tags (influxPoint p)) = {''id''} \<and>
   tags (influxPoint p) ''id'' = Some (Id' p) \<and>
   dom (fieldMap (influxPoint p)) =
     {''wifi'', ''co2'', ''pm1'', ''pm25'', ''pm10'', ''pm003'', ''tvoc'', ''nox'', ''temp'',
      ''rel_humidity''} \<and>
   fieldMap (influxPoint p) ''wifi'' = Some (IntValue (Wifi p)) \<and>
   fieldMap (influxPoint p) ''co2'' = Some (IntValue (C02 p)) \<and>
   fieldMap (influxPoint p) ''pm1'' = Some (IntValue (PM01 p)) \<and>
   fieldMap (influxPoint p) ''pm25'' = Some (IntValue (PM02 p)) \<and>
   fieldMap (influxPoint p) ''pm10'' = Some (IntValue (PM10 p)) \<and>
   fieldMap (influxPoint p) ''pm003'' = Some (IntValue (PM003 p)) \<and>
   fieldMap (influxPoint p) ''tvoc'' = Some (IntValue (TVOC p)) \<and>
   fieldMap (influxPoint p) ''nox'' = Some (IntValue (NOX p)) \<and>
   fieldMap (influxPoint p) ''temp'' = Some (FloatValue (Temp p)) \<and>
   fieldMap (influxPoint p) ''rel_humidity'' = Some (IntValue (Hum p)) \<and>
   timestamp (influxPoint p) = Ts p"
  unfolding influxPoint_def NewPoint_def by (intro conjI) (simp, simp, simp, auto)

lemma decoded_zero:
  assumes "Unmarshal L (JSONText (JObject ms)) zeroData = Inr d"
  shows "(FWifi \<notin> storedFields ms \<longrightarrow> Wifi d = 0) \<and>
         (FC02 \<notin> storedFields ms \<longrightarrow> C02 d = 0) \<and>
         (FPM01 \<notin> storedFields ms \<longrightarrow> PM01 d = 0) \<and>
         (FPM02 \<notin> storedFields ms \<longrightarrow> PM02 d = 0) \<and>
         (FPM10 \<notin> storedFields ms \<longrightarrow> PM10 d = 0) \<and>
         (FPM003 \<notin> storedFields ms \<longrightarrow> PM003 d = 0) \<and>
         (FTVOC \<notin> storedFields ms \<longrightarrow> TVOC d = 0) \<and>
         (FNOX \<notin> storedFields ms \<longrightarrow> NOX d = 0) \<and>
         (FTemp \<notin> storedFields ms \<longrightarrow> Temp d = zeroFloat) \<and>
         (FHum \<notin> storedFields ms \<longrightarrow> Hum d = 0)"
  using Unmarshal_omitted [OF assms, of FWifi] Unmarshal_omitted [OF assms, of FC02]
    Unmarshal_omitted [OF assms, of FPM01] Unmarshal_omitted [OF assms, of FPM02]
    Unmarshal_omitted [OF assms, of FPM10] Unmarshal_omitted [OF assms, of FPM003]
    Unmarshal_omitted [OF assms, of FTVOC] Unmarshal_omitted [OF assms, of FNOX]
    Unmarshal_omitted [OF assms, of FTemp] Unmarshal_omitted [OF assms, of FHum]
  by (simp add: zeroData_def)

text \<open>
  Claim C1. The writer hands one point to \<^verbatim>\<open>WritePoint\<close> for each value it receives, in
  order. The point of a value has the measurement \<^verbatim>\<open>air_quality\<close>, the one tag \<^verbatim>\<open>id\<close> with
  the value's \<open>Id'\<close>, the ten fields \<^verbatim>\<open>wifi, co2, pm1, pm25, pm10, pm003, tvoc, nox, temp,
  rel_humidity\<close> with the value's \<open>Wifi, C02, PM01, PM02, PM10, PM003, TVOC, NOX, Temp,
  Hum\<close>, and the value's \<open>Ts\<close> as its time. When the body of a request is an object and
  the handler sends a Point for it, a field that no member of the object is stored into
  is zero in the point written. The example body, posted with the \<^verbatim>\<open>id\<close>
  \<^verbatim>\<open>airgradient:office-1\<close>, is answered with 200 and yields exactly one write, with the tag
  \<^verbatim>\<open>id=office-1\<close> and the fields of the example; its \<^verbatim>\<open>temp\<close> is the \<^verbatim>\<open>float64\<close> that
  \<^verbatim>\<open>ParseFloat\<close> returns for the literal \<^verbatim>\<open>32.07\<close>.
\<close>

theorem C1_store_write:
  "length (submitResults dataCh []) = length dataCh \<and>
   (\<forall>i<length dataCh.
      let p = dataCh ! i; w = submitResults dataCh [] ! i in
        measurement w = ''air_quality'' \<and>
        dom (tags w) = {''id''} \<and>
        tags w ''id'' = Some (Id' p) \<and>
        dom (fieldMap w) =
          {''wifi'', ''co2'', ''pm1'', ''pm25'', ''pm10'', ''pm003'', ''tvoc'', ''nox'', ''temp'',
           ''rel_humidity''} \<and>
        fieldMap w ''wifi'' = Some (IntValue (Wifi p)) \<and>
        fieldMap w ''co2'' = Some (IntValue (C02 p)) \<and>
        fieldMap w ''pm1'' = Some (IntValue (PM01 p)) \<and>
        fieldMap w ''pm25'' = Some (IntValue (PM02 p)) \<and>
        fieldMap w ''pm10'' = Some (IntValue (PM10 p)) \<and>
        fieldMap w ''pm003'' = Some (IntValue (PM003 p)) \<and>
        fieldMap w ''tvoc'' = Some (IntValue (TVOC p)) \<and>
        fieldMap w ''nox'' = Some (IntValue (NOX p)) \<and>
        fieldMap w ''temp'' = Some (FloatValue (Temp p)) \<and>
        fieldMap w ''rel_humidity'' = Some (IntValue (Hum p)) \<and>
        timestamp w = Ts p) \<and>
   (Body r = Some (JSONText (JObject ms)) \<and> mainHandler L r ch = (resp, ch @ [q]) \<longrightarrow>
      (FWifi \<notin> storedFields ms \<longrightarrow> fieldMap (influxPoint q) ''wifi'' = Some (IntValue 0)) \<and>
      (FC02 \<notin> storedFields ms \<longrightarrow> fieldMap (influxPoint q) ''co2'' = Some (IntValue 0)) \<and>
      (FPM01 \<notin> storedFields ms \<longrightarrow> fieldMap (influxPoint q) ''pm1'' = Some (IntValue 0)) \<and>
      (FPM02 \<notin> storedFields ms \<longrightarrow> fieldMap (influxPoint q) ''pm25'' = Some (IntValue 0)) \<and>
      (FPM10 \<notin> storedFields ms \<longrightarrow> fieldMap (influxPoint q) ''pm10'' = Some (IntValue 0)) \<and>
      (FPM003 \<notin> storedFields ms \<longrightarrow> fieldMap (influxPoint q) ''pm003'' = Some (IntValue 0)) \<and>
      (FTVOC \<notin> storedFields ms \<longrightarrow> fieldMap (influxPoint q) ''tvoc'' = Some (IntValue 0)) \<and>
      (FNOX \<notin> storedFields ms \<longrightarrow> fieldMap (influxPoint q) ''nox'' = Some (IntValue 0)) \<and>
      (FTemp \<notin> storedFields ms \<longrightarrow>
         fieldMap (influxPoint q) ''temp'' = Some (FloatValue zeroFloat)) \<and>
      (FHum \<notin> storedFields ms \<longrightarrow>
         fieldMap (influxPoint q) ''rel_humidity'' = Some (IntValue 0))) \<and>
   (ParseFloat L ''32.07'' = Some x \<longrightarrow>
      fst (mainHandler L (exampleRequest t) []) = noResponse \<and>
      submitResults (snd (mainHandler L (exampleRequest t) [])) [] =
        [\<lparr>measurement = ''air_quality'',
          tags = [''id'' \<mapsto> ''office-1''],
          fieldMap =
            [''wifi'' \<mapsto> IntValue (- 64), ''co2'' \<mapsto> IntValue 419, ''pm1'' \<mapsto> IntValue 4,
             ''pm25'' \<mapsto> IntValue 7, ''pm10'' \<mapsto> IntValue 7, ''pm003'' \<mapsto> IntValue 834,
             ''tvoc'' \<mapsto> IntValue 3, ''nox'' \<mapsto> IntValue 2, ''temp'' \<mapsto> FloatValue x,
             ''rel_humidity'' \<mapsto> IntValue 56],
          timestamp = t\<rparr>])"
  (is "?len \<and> ?each \<and> ?omitted \<and> ?example")
proof (intro conjI)
  show ?len
    by (simp add: submitResults_map)
  show ?each
  proof (intro allI impI)
    fix i
    assume "i < length dataCh"
    then have "submitResults dataCh [] ! i = influxPoint (dataCh ! i)"
      by (simp add: submitResults_map)
    with influxPoint_shape [of "dataCh ! i"] show
      "let p = dataCh ! i; w = submitResults dataCh [] ! i in
        measurement w = ''air_quality'' \<and>
        dom (tags w) = {''id''} \<and>
        tags w ''id'' = Some (Id' p) \<and>
        dom (fieldMap w) =
          {''wifi'', ''co2'', ''pm1'', ''pm25'', ''pm10'', ''pm003'', ''tvoc'', ''nox'', ''temp'',
           ''rel_humidity''} \<and>
        fieldMap w ''wifi'' = Some (IntValue (Wifi p)) \<and>
        fieldMap w ''co2'' = Some (IntValue (C02 p)) \<and>
        fieldMap w ''pm1'' = Some (IntValue (PM01 p)) \<and>
        fieldMap w ''pm25'' = Some (IntValue (PM02 p)) \<and>
        fieldMap w ''pm10'' = Some (IntValue (PM10 p)) \<and>
        fieldMap w ''pm003'' = Some (IntValue (PM003 p)) \<and>
        fieldMap w ''tvoc'' = Some (IntValue (TVOC p)) \<and>
        fieldMap w ''nox'' = Some (IntValue (NOX p)) \<and>
        fieldMap w ''temp'' = Some (FloatValue (Temp p)) \<and>
        fieldMap w ''rel_humidity'' = Some (IntValue (Hum p)) \<and>
        timestamp w = Ts p"
      by (simp only: Let_def)
  qed
  show ?omitted
  proof
    assume a: "Body r = Some (JSONText (JObject ms)) \<and> mainHandler L r ch = (resp, ch @ [q])"
    then have h: "mainHandler L r ch = (resp, ch @ [q])" and ne: "ch @ [q] \<noteq> ch"
      by simp_all
    from mainHandler_sent [OF h ne] a obtain d where
      u: "Unmarshal L (JSONText (JObject ms)) zeroData = Inr d" and
      q: "q = d\<lparr>Id' := instanceId (Vars r), Ts := Now r\<rparr>"
      by auto
    from decoded_zero [OF u] influxPoint_shape [of q] show
      "(FWifi \<notin> storedFields ms \<longrightarrow> fieldMap (influxPoint q) ''wifi'' = Some (IntValue 0)) \<and>
      (FC02 \<notin> storedFields ms \<longrightarrow> fieldMap (influxPoint q) ''co2'' = Some (IntValue 0)) \<and>
      (FPM01 \<notin> storedFields ms \<longrightarrow> fieldMap (influxPoint q) ''pm1'' = Some (IntValue 0)) \<and>
      (FPM02 \<notin> storedFields ms \<longrightarrow> fieldMap (influxPoint q) ''pm25'' = Some (IntValue 0)) \<and>
      (FPM10 \<notin> storedFields ms \<longrightarrow> fieldMap (influxPoint q) ''pm10'' = Some (IntValue 0)) \<and>
      (FPM003 \<notin> storedFields ms \<longrightarrow> fieldMap (influxPoint q) ''pm003'' = Some (IntValue 0)) \<and>
      (FTVOC \<notin> storedFields ms \<longrightarrow> fieldMap (influxPoint q) ''tvoc'' = Some (IntValue 0)) \<and>
      (FNOX \<notin> storedFields ms \<longrightarrow> fieldMap (influxPoint q) ''nox'' = Some (IntValue 0)) \<and>
      (FTemp \<notin> storedFields ms \<longrightarrow>
         fieldMap (influxPoint q) ''temp'' = Some (FloatValue zeroFloat)) \<and>
      (FHum \<notin> storedFields ms \<longrightarrow>
         fieldMap (influxPoint q) ''rel_humidity'' = Some (IntValue 0))"
      by (simp add: q)
  qed
  show ?example
  proof
    assume x: "ParseFloat L ''32.07'' = Some x"
    have "mainHandler L (exampleRequest t) [] =
      (noResponse,
       [] @ [\<lparr>Id' = [], Ts = zeroTime, Wifi = - 64, C02 = 419, PM01 = 4, PM02 = 7, PM10 = 7,
          PM003 = 834, TVOC = 3, NOX = 2, Temp = x, Hum = 56\<rparr>
          \<lparr>Id' := instanceId (Vars (exampleRequest t)), Ts := Now (exampleRequest t)\<rparr>])"
      by (rule mainHandler_decoded [OF _ Unmarshal_exampleBody [OF x]])
         (simp add: exampleRequest_def)
    then show "fst (mainHandler L (exampleRequest t) []) = noResponse \<and>
      submitResults (snd (mainHandler L (exampleRequest t) [])) [] =
        [\<lparr>measurement = ''air_quality'',
          tags = [''id'' \<mapsto> ''office-1''],
          fieldMap =
            [''wifi'' \<mapsto> IntValue (- 64), ''co2'' \<mapsto> IntValue 419, ''pm1'' \<mapsto> IntValue 4,
             ''pm25'' \<mapsto> IntValue 7, ''pm10'' \<mapsto> IntValue 7, ''pm003'' \<mapsto> IntValue 834,
             ''tvoc'' \<mapsto> IntValue 3, ''nox'' \<mapsto> IntValue 2, ''temp'' \<mapsto> FloatValue x,
             ''rel_humidity'' \<mapsto> IntValue 56],
          timestamp = t\<rparr>]"
      by (simp add: exampleRequest_def instanceId_def influxPoint_def NewPoint_def)
  qed
qed

theorem C1_store_write_witness:
  "length (submitResults [zeroData\<lparr>Id' := ''office-1''\<rparr>] []) = 1 \<and>
   tags (submitResults [zeroData\<lparr>Id' := ''office-1''\<rparr>] [] ! 0) ''id'' = Some ''office-1'' \<and>
   fieldMap
     (influxPoint
        (hd (snd (mainHandler sampleLib
           \<lparr>Body = Some (JSONText (JObject [(''wifi'', JNumber ''5'')])),
            Vars = [''id'' \<mapsto> ''airgradient:office-1''], Now = Time 0\<rparr> []))))
     ''co2'' = Some (IntValue 0) \<and>
   fst (mainHandler sampleLib (exampleRequest (Time 9)) []) = noResponse \<and>
   submitResults (snd (mainHandler sampleLib (exampleRequest (Time 9)) [])) [] =
     [\<lparr>measurement = ''air_quality'',
       tags = [''id'' \<mapsto> ''office-1''],
       fieldMap =
         [''wifi'' \<mapsto> IntValue (- 64), ''co2'' \<mapsto> IntValue 419, ''pm1'' \<mapsto> IntValue 4,
          ''pm25'' \<mapsto> IntValue 7, ''pm10'' \<mapsto> IntValue 7, ''pm003'' \<mapsto> IntValue 834,
          ''tvoc'' \<mapsto> IntValue 3, ''nox'' \<mapsto> IntValue 2,
          ''temp'' \<mapsto> FloatValue (Float64 0x404008F5C28F5C29),
          ''rel_humidity'' \<mapsto> IntValue 56],
       timestamp = Time 9\<rparr>]"
proof -
  let ?ms = "[(''wifi'', JNumber ''5'')]"
  let ?r = "\<lparr>Body = Some (JSONText (JObject ?ms)),
            Vars = [''id'' \<mapsto> ''airgradient:office-1''], Now = Time 0\<rparr>"
  let ?q = "zeroData\<lparr>Wifi := 5, Id' := ''office-1'', Ts := Time 0\<rparr>"
  note T = C1_store_write [where dataCh = "[zeroData\<lparr>Id' := ''office-1''\<rparr>]" and r = ?r
      and ms = ?ms and L = sampleLib and ch = "[]" and resp = noResponse and q = ?q
      and x = "Float64 0x404008F5C28F5C29" and t = "Time 9"]
  have u: "Unmarshal sampleLib (JSONText (JObject ?ms)) zeroData = Inr (zeroData\<lparr>Wifi := 5\<rparr>)"
    by (simp add: Unmarshal_def storeValue_def storeInt_def findField_def structFields_def
          isDigit_def digitVal_def)
  have h: "mainHandler sampleLib ?r [] = (noResponse, [] @ [?q])"
    by (simp add: mainHandler_decoded [OF _ u] instanceId_def)
  have o: "FC02 \<notin> storedFields ?ms"
    by (simp add: storedFields_def findField_def structFields_def)
  from T have 1: "length (submitResults [zeroData\<lparr>Id' := ''office-1''\<rparr>] []) = 1"
    by simp
  from T have 2: "tags (submitResults [zeroData\<lparr>Id' := ''office-1''\<rparr>] [] ! 0) ''id'' = Some ''office-1''"
    by (simp add: Let_def)
  from T h o have "fieldMap (influxPoint ?q) ''co2'' = Some (IntValue 0)"
    by simp
  with h have 3: "fieldMap (influxPoint (hd (snd (mainHandler sampleLib ?r [])))) ''co2'' =
      Some (IntValue 0)"
    by simp
  from T sampleLib_float have 4:
    "fst (mainHandler sampleLib (exampleRequest (Time 9)) []) = noResponse \<and>
     submitResults (snd (mainHandler sampleLib (exampleRequest (Time 9)) [])) [] =
     [\<lparr>measurement = ''air_quality'',
       tags = [''id'' \<mapsto> ''office-1''],
       fieldMap =
         [''wifi'' \<mapsto> IntValue (- 64), ''co2'' \<mapsto> IntValue 419, ''pm1'' \<mapsto> IntValue 4,
          ''pm25'' \<mapsto> IntValue 7, ''pm10'' \<mapsto> IntValue 7, ''pm003'' \<mapsto> IntValue 834,
          ''tvoc'' \<mapsto> IntValue 3, ''nox'' \<mapsto> IntValue 2,
          ''temp'' \<mapsto> FloatValue (Float64 0x404008F5C28F5C29),
          ''rel_humidity'' \<mapsto> IntValue 56],
       timestamp = Time 9\<rparr>]"
    by blast
  from 1 2 3 4 show ?thesis by blast
qed

section \<open>The sensor identifier\<close>

text \<open>
  Claim C2. Whenever the handler sends a Point, the Point's \<open>Id'\<close> is decided by the
  \<^verbatim>\<open>id\<close> variable of the route alone. It is \<open>b\<close> when the variable, split at the colons,
  has exactly the two components \<open>a\<close> and \<open>b\<close>, that is, when the variable is \<open>a:b\<close> with
  no colon in \<open>a\<close> and none in \<open>b\<close>. It is the sentinel \<open>''null''\<close> when the split has any
  other number of components, that is, when the number of colons is not one, and when the
  variable is absent. For a path \<^verbatim>\<open>/sensors/a:b/measures\<close> the route binds the variable to
  \<open>a:b\<close>.
\<close>

theorem C2_sensor_identifier:
  assumes "mainHandler L r ch = (resp, ch')" and "ch' \<noteq> ch"
  shows "\<exists>p. ch' = ch @ [p] \<and>
     (Vars r ''id'' = None \<longrightarrow> Id' p = ''null'') \<and>
     (\<forall>seg a b. Vars r ''id'' = Some seg \<and> Split seg (CHR '':'') = [a, b] \<longrightarrow> Id' p = b) \<and>
     (\<forall>seg. Vars r ''id'' = Some seg \<and> length (Split seg (CHR '':'')) \<noteq> 2 \<longrightarrow>
        Id' p = ''null'') \<and>
     (\<forall>a b. Vars r ''id'' = Some (a @ '':'' @ b) \<and> CHR '':'' \<notin> set a \<and> CHR '':'' \<notin> set b \<longrightarrow>
        Id' p = b) \<and>
     (\<forall>seg. Vars r ''id'' = Some seg \<and> count_list seg (CHR '':'') \<noteq> 1 \<longrightarrow> Id' p = ''null'') \<and>
     (\<forall>a b. CHR ''/'' \<notin> set a \<and> CHR ''/'' \<notin> set b \<longrightarrow>
        routeVars (''/sensors/'' @ a @ '':'' @ b @ ''/measures'') = Some [''id'' \<mapsto> a @ '':'' @ b])"
proof -
  from mainHandler_sent [OF assms] obtain b d where
    "Body r = Some b" and
    p: "ch' = ch @ [d\<lparr>Id' := instanceId (Vars r), Ts := Now r\<rparr>]"
    by blast
  let ?p = "d\<lparr>Id' := instanceId (Vars r), Ts := Now r\<rparr>"
  have id: "Id' ?p = instanceId (Vars r)" by simp
  have 1: "Vars r ''id'' = None \<longrightarrow> Id' ?p = ''null''"
    unfolding id by (simp add: instanceId_absent)
  have 2: "\<forall>seg a b. Vars r ''id'' = Some seg \<and> Split seg (CHR '':'') = [a, b] \<longrightarrow> Id' ?p = b"
    unfolding id by (auto simp: instanceId_two)
  have 3: "\<forall>seg. Vars r ''id'' = Some seg \<and> length (Split seg (CHR '':'')) \<noteq> 2 \<longrightarrow>
      Id' ?p = ''null''"
    unfolding id by (auto simp: instanceId_other)
  have 4: "\<forall>a b. Vars r ''id'' = Some (a @ '':'' @ b) \<and> CHR '':'' \<notin> set a \<and> CHR '':'' \<notin> set b \<longrightarrow>
      Id' ?p = b"
  proof (intro allI impI)
    fix a b
    assume a: "Vars r ''id'' = Some (a @ '':'' @ b) \<and> CHR '':'' \<notin> set a \<and> CHR '':'' \<notin> set b"
    then have "Split (a @ '':'' @ b) (CHR '':'') = [a, b]"
      by (simp add: Split_two)
    with a 2 show "Id' ?p = b" by blast
  qed
  have 5: "\<forall>seg. Vars r ''id'' = Some seg \<and> count_list seg (CHR '':'') \<noteq> 1 \<longrightarrow> Id' ?p = ''null''"
  proof (intro allI impI)
    fix seg
    assume a: "Vars r ''id'' = Some seg \<and> count_list seg (CHR '':'') \<noteq> 1"
    then have "length (Split seg (CHR '':'')) \<noteq> 2"
      by (simp add: Split_length)
    with a 3 show "Id' ?p = ''null''" by blast
  qed
  have 6: "\<forall>a b. CHR ''/'' \<notin> set a \<and> CHR ''/'' \<notin> set b \<longrightarrow>
      routeVars (''/sensors/'' @ a @ '':'' @ b @ ''/measures'') = Some [''id'' \<mapsto> a @ '':'' @ b]"
  proof (intro allI impI)
    fix a b :: string
    assume "CHR ''/'' \<notin> set a \<and> CHR ''/'' \<notin> set b"
    then have "CHR ''/'' \<notin> set (a @ '':'' @ b)" "a @ '':'' @ b \<noteq> []"
      by simp_all
    from routeVars_segment [OF this]
    show "routeVars (''/sensors/'' @ a @ '':'' @ b @ ''/measures'') = Some [''id'' \<mapsto> a @ '':'' @ b]"
      by simp
  qed
  show ?thesis
    by (rule exI [of _ ?p]) (intro conjI p 1 2 3 4 5 6)
qed

theorem C2_sensor_identifier_witness:
  "Id' (hd (snd (mainHandler sampleLib (exampleRequest (Time 0)) []))) = ''office-1'' \<and>
   Id' (hd (snd (mainHandler sampleLib
     ((exampleRequest (Time 0))\<lparr>Vars := [''id'' \<mapsto> ''a:b:c'']\<rparr>) []))) = ''null'' \<and>
   Id' (hd (snd (mainHandler sampleLib
     ((exampleRequest (Time 0))\<lparr>Vars := Map.empty\<rparr>) []))) = ''null''"
proof -
  have sent: "\<exists>resp p. mainHandler sampleLib ((exampleRequest (Time 0))\<lparr>Vars := vs\<rparr>) [] = (resp, [p])"
    for vs
    by (simp add: mainHandler_decoded [OF _ Unmarshal_exampleBody [OF sampleLib_float]]
          exampleRequest_def)
  have same: "(exampleRequest (Time 0))\<lparr>Vars := [''id'' \<mapsto> ''airgradient:office-1'']\<rparr> =
      exampleRequest (Time 0)"
    by (simp add: exampleRequest_def)
  have 1: "Id' (hd (snd (mainHandler sampleLib (exampleRequest (Time 0)) []))) = ''office-1''"
  proof -
    from sent [of "[''id'' \<mapsto> ''airgradient:office-1'']"] same obtain resp p where
      h: "mainHandler sampleLib (exampleRequest (Time 0)) [] = (resp, [p])"
      by auto
    have ne: "[p] \<noteq> []" by simp
    from C2_sensor_identifier [OF h ne] have
      "\<forall>a b. Vars (exampleRequest (Time 0)) ''id'' = Some (a @ '':'' @ b) \<and>
          CHR '':'' \<notin> set a \<and> CHR '':'' \<notin> set b \<longrightarrow> Id' p = b"
      by auto
    moreover have "Vars (exampleRequest (Time 0)) ''id'' = Some (''airgradient'' @ '':'' @ ''office-1'') \<and>
        CHR '':'' \<notin> set ''airgradient'' \<and> CHR '':'' \<notin> set ''office-1''"
      by (simp add: exampleRequest_def)
    ultimately have "Id' p = ''office-1''" by blast
    with h show ?thesis by simp
  qed
  have 2: "Id' (hd (snd (mainHandler sampleLib
      ((exampleRequest (Time 0))\<lparr>Vars := [''id'' \<mapsto> ''a:b:c'']\<rparr>) []))) = ''null''"
  proof -
    let ?r = "(exampleRequest (Time 0))\<lparr>Vars := [''id'' \<mapsto> ''a:b:c'']\<rparr>"
    from sent obtain resp p where h: "mainHandler sampleLib ?r [] = (resp, [p])"
      by blast
    have ne: "[p] \<noteq> []" by simp
    from C2_sensor_identifier [OF h ne] have
      "\<forall>seg. Vars ?r ''id'' = Some seg \<and> count_list seg (CHR '':'') \<noteq> 1 \<longrightarrow> Id' p = ''null''"
      by auto
    moreover have "Vars ?r ''id'' = Some ''a:b:c'' \<and> count_list ''a:b:c'' (CHR '':'') \<noteq> 1"
      by simp
    ultimately have "Id' p = ''null''" by blast
    with h show ?thesis by simp
  qed
  have 3: "Id' (hd (snd (mainHandler sampleLib
      ((exampleRequest (Time 0))\<lparr>Vars := Map.empty\<rparr>) []))) = ''null''"
  proof -
    let ?r = "(exampleRequest (Time 0))\<lparr>Vars := Map.empty\<rparr>"
    from sent obtain resp p where h: "mainHandler sampleLib ?r [] = (resp, [p])"
      by blast
    have ne: "[p] \<noteq> []" by simp
    from C2_sensor_identifier [OF h ne] have "Vars ?r ''id'' = None \<longrightarrow> Id' p = ''null''"
      by auto
    then have "Id' p = ''null''" by simp
    with h show ?thesis by simp
  qed
  from 1 2 3 show ?thesis by blast
qed

section \<open>The bodies that decode\<close>

lemma kindOf_cases:
  "kindOf f = KTime \<longleftrightarrow> f = FTs" "kindOf f = KFloat \<longleftrightarrow> f = FTemp"
  by (cases f; simp)+

lemma storeValue_accepts:
  assumes "accepts L f v"
  shows "\<exists>d'. storeValue L f v (d, e) = Inr (d', e)"
  using assms
  by (cases "kindOf f"; cases v)
     (auto simp: accepts_def storeValue_def storeTime_def storeInt_def storeFloat_def)

lemma storeValue_rejects:
  assumes "\<not> accepts L f v"
  shows "storeValue L f v (d, e) = Inl TimeError \<or>
         (\<exists>e'. storeValue L f v (d, e) = Inr (d, Some e'))"
  using assms
  by (cases "kindOf f"; cases v; cases e)
     (auto simp: accepts_def storeValue_def storeTime_def storeInt_def storeFloat_def
        saveError_def)

lemma storeValue_saved:
  assumes "storeValue L f v (d, Some e) = Inr (d', e')"
  shows "e' = Some e"
  using assms
  by (cases "kindOf f"; cases v)
     (auto simp: storeValue_def storeTime_def storeInt_def storeFloat_def saveError_def
        split: option.splits)

lemma object_saved:
  assumes "object L ms (d, Some e) = Inr (d', e')"
  shows "e' = Some e"
  using assms
proof (induction ms arbitrary: d)
  case Nil
  then show ?case by simp
next
  case (Cons m ms)
  obtain k v where m: "m = (k, v)" by (cases m)
  show ?case
  proof (cases "findField k")
    case None
    with Cons.prems m have "object L ms (d, Some e) = Inr (d', e')" by simp
    then show ?thesis by (rule Cons.IH)
  next
    case (Some f)
    with Cons.prems m obtain d1 e1 where
      s1: "storeValue L f v (d, Some e) = Inr (d1, e1)" and s2: "object L ms (d1, e1) = Inr (d', e')"
      by (auto split: sum.splits)
    from storeValue_saved [OF s1] s2 have "object L ms (d1, Some e) = Inr (d', e')" by simp
    then show ?thesis by (rule Cons.IH)
  qed
qed

lemma object_decodes:
  "(\<exists>d'. object L ms (d, None) = Inr (d', None)) =
   list_all (\<lambda>(k, v). case findField k of None \<Rightarrow> True | Some f \<Rightarrow> accepts L f v) ms"
proof (induction ms arbitrary: d)
  case Nil
  show ?case by simp
next
  case (Cons m ms)
  obtain k v where m: "m = (k, v)" by (cases m)
  show ?case
  proof (cases "findField k")
    case None
    with m Cons.IH [of d] show ?thesis by simp
  next
    case (Some f)
    show ?thesis
    proof (cases "accepts L f v")
      case True
      from storeValue_accepts [OF True] obtain d1 where
        "storeValue L f v (d, None) = Inr (d1, None)" by blast
      with m Some True Cons.IH [of d1] show ?thesis by simp
    next
      case False
      from storeValue_rejects [OF False, of d None] have
        "\<not> (\<exists>d'. object L ((k, v) # ms) (d, None) = Inr (d', None))"
      proof
        assume "storeValue L f v (d, None) = Inl TimeError"
        with Some show ?thesis by simp
      next
        assume "\<exists>e'. storeValue L f v (d, None) = Inr (d, Some e')"
        then obtain e' where s: "storeValue L f v (d, None) = Inr (d, Some e')" by blast
        show ?thesis
        proof
          assume "\<exists>d'. object L ((k, v) # ms) (d, None) = Inr (d', None)"
          then obtain d' where "object L ((k, v) # ms) (d, None) = Inr (d', None)" by blast
          with Some s have "object L ms (d, Some e') = Inr (d', None)" by simp
          from object_saved [OF this] show False by simp
        qed
      qed
      with m Some False show ?thesis by simp
    qed
  qed
qed

lemma Unmarshal_decodes: "(\<exists>d. Unmarshal L b d0 = Inr d) = decodes L b"
proof (cases b)
  case NotJSON
  then show ?thesis by (simp add: Unmarshal_def decodes_def)
next
  case (JSONText v)
  show ?thesis
  proof (cases v)
    case (JObject ms)
    have "(\<exists>d. Unmarshal L b d0 = Inr d) = (\<exists>d'. object L ms (d0, None) = Inr (d', None))"
      unfolding JSONText JObject
      by (auto simp: Unmarshal_def split: sum.splits option.splits prod.splits)
    with JSONText JObject show ?thesis
      by (simp add: decodes_def object_decodes)
  qed (simp_all add: JSONText Unmarshal_def decodes_def)
qed

section \<open>The responses of the handler\<close>

text \<open>
  The claim C3 as it is written (400 if and only if the body cannot be read or is not
  well-formed JSON) fails: the body \<^verbatim>\<open>{"wifi":"-64"}\<close> is read and is well-formed JSON, and
  the handler answers 400 and sends nothing, since \<^verbatim>\<open>Unmarshal\<close> returns an
  \<^verbatim>\<open>UnmarshalTypeError\<close> for a string in an \<^verbatim>\<open>int\<close> field.
\<close>

theorem C3_counterexample:
  "mainHandler sampleLib
     \<lparr>Body = Some (JSONText (JObject [(''wifi'', JString ''-64'')])),
      Vars = [''id'' \<mapsto> ''airgradient:office-1''], Now = Time 0\<rparr> [] =
   (\<lparr>status = 400, contentType = Some ''text/plain; charset=utf-8'',
     body = ''failed to unmarshal'' @ [CHR 0x0A]\<rparr>, [])"
  by (simp add: mainHandler_def Unmarshal_def storeValue_def storeInt_def saveError_def
        findField_def structFields_def http_Error_def StatusBadRequest_def)

text \<open>
  Claim C3, amended. The handler answers 400 with one of its two plain-text messages and
  leaves the channel as it was if and only if the body cannot be read or does not decode
  (\<open>decodes\<close>: it is not JSON, or not an object or \<^verbatim>\<open>null\<close>, or a member that matches a
  field has a value the field does not accept); it sends exactly one Point and answers 200
  with an empty body if and only if the body is read and decodes. A body that is not
  well-formed JSON is answered with 400 and never reaches the channel.
\<close>

theorem C3_bad_request:
  "((mainHandler L r ch = (http_Error ''cannot read body'' StatusBadRequest, ch) \<or>
     mainHandler L r ch = (http_Error ''failed to unmarshal'' StatusBadRequest, ch)) =
    (Body r = None \<or> (\<exists>b. Body r = Some b \<and> \<not> decodes L b))) \<and>
   ((\<exists>p. mainHandler L r ch = (noResponse, ch @ [p])) =
    (\<exists>b. Body r = Some b \<and> decodes L b)) \<and>
   (Body r = Some NotJSON \<longrightarrow>
      mainHandler L r ch = (http_Error ''failed to unmarshal'' StatusBadRequest, ch)) \<and>
   status (http_Error msg StatusBadRequest) = 400 \<and>
   contentType (http_Error msg StatusBadRequest) = Some ''text/plain; charset=utf-8'' \<and>
   status noResponse = 200 \<and> body noResponse = []"
  (is "?bad \<and> ?good \<and> ?malformed \<and> ?s400 \<and> ?plain \<and> ?s200 \<and> ?empty")
proof -
  have resp: "noResponse \<noteq> http_Error m StatusBadRequest" for m
    by (simp add: noResponse_def http_Error_def StatusOK_def StatusBadRequest_def)
  have msgs: "http_Error ''cannot read body'' StatusBadRequest \<noteq>
      http_Error ''failed to unmarshal'' StatusBadRequest"
    by (simp add: http_Error_def)
  have cases: "?bad \<and> ?good"
  proof (cases "Body r")
    case None
    then show ?thesis
      by (simp add: mainHandler_unreadable resp [symmetric])
  next
    case (Some b)
    show ?thesis
    proof (cases "decodes L b")
      case True
      then obtain d where "Unmarshal L b zeroData = Inr d"
        using Unmarshal_decodes [of L b zeroData] by blast
      from mainHandler_decoded [OF Some this, of ch] Some True show ?thesis
        by (simp add: resp)
    next
      case False
      then have "\<not> (\<exists>d. Unmarshal L b zeroData = Inr d)"
        by (simp add: Unmarshal_decodes)
      then obtain e where "Unmarshal L b zeroData = Inl e"
        by (cases "Unmarshal L b zeroData") auto
      from mainHandler_undecoded [OF Some this, of ch] Some False show ?thesis
        by (simp add: resp [symmetric])
    qed
  qed
  have m: ?malformed
  proof
    assume b: "Body r = Some NotJSON"
    have "Unmarshal L NotJSON zeroData = Inl SyntaxError" by (simp add: Unmarshal_def)
    from mainHandler_undecoded [OF b this]
    show "mainHandler L r ch = (http_Error ''failed to unmarshal'' StatusBadRequest, ch)" .
  qed
  have rest: "?s400 \<and> ?plain \<and> ?s200 \<and> ?empty"
    by (simp add: http_Error_def noResponse_def StatusOK_def StatusBadRequest_def)
  from cases m rest show ?thesis by blast
qed

theorem C3_bad_request_witness:
  "mainHandler sampleLib \<lparr>Body = None, Vars = Map.empty, Now = Time 0\<rparr> [] =
     (http_Error ''cannot read body'' StatusBadRequest, []) \<and>
   mainHandler sampleLib \<lparr>Body = Some NotJSON, Vars = Map.empty, Now = Time 0\<rparr> [] =
     (http_Error ''failed to unmarshal'' StatusBadRequest, []) \<and>
   length (snd (mainHandler sampleLib (exampleRequest (Time 0)) [])) = 1"
proof -
  let ?u = "\<lparr>Body = None, Vars = Map.empty, Now = Time 0\<rparr>"
  let ?m = "\<lparr>Body = Some NotJSON, Vars = Map.empty, Now = Time 0\<rparr>"
  have msgs: "http_Error ''cannot read body'' StatusBadRequest \<noteq>
      http_Error ''failed to unmarshal'' StatusBadRequest"
    by (simp add: http_Error_def)
  have "mainHandler sampleLib ?u [] = (http_Error ''cannot read body'' StatusBadRequest, []) \<or>
      mainHandler sampleLib ?u [] = (http_Error ''failed to unmarshal'' StatusBadRequest, [])"
    using C3_bad_request [where L = sampleLib and r = ?u and ch = "[]"] by simp
  then have 1: "mainHandler sampleLib ?u [] = (http_Error ''cannot read body'' StatusBadRequest, [])"
    by (auto simp: mainHandler_def)
  have 2: "mainHandler sampleLib ?m [] = (http_Error ''failed to unmarshal'' StatusBadRequest, [])"
    using C3_bad_request [where L = sampleLib and r = ?m and ch = "[]"] by simp
  have "decodes sampleLib (JSONText exampleBody)"
    by (simp add: decodes_def exampleBody_def accepts_def findField_def structFields_def
          sampleLib_def isDigit_def digitVal_def)
  then have "\<exists>b. Body (exampleRequest (Time 0)) = Some b \<and> decodes sampleLib b"
    by (simp add: exampleRequest_def)
  with C3_bad_request [where L = sampleLib and r = "exampleRequest (Time 0)" and ch = "[]"]
  obtain p where "mainHandler sampleLib (exampleRequest (Time 0)) [] = (noResponse, [] @ [p])"
    by blast
  then have 3: "length (snd (mainHandler sampleLib (exampleRequest (Time 0)) [])) = 1"
    by simp
  from 1 2 3 show ?thesis by blast
qed

section \<open>The empty identifier\<close>

lemma instanceId_empty_iff:
  "instanceId vars = [] \<longleftrightarrow> (\<exists>a. vars ''id'' = Some (a @ '':'') \<and> CHR '':'' \<notin> set a)"
proof
  assume e: "instanceId vars = []"
  then obtain seg where seg: "vars ''id'' = Some seg"
    by (cases "vars ''id''") (simp_all add: instanceId_def)
  with e have len: "length (Split seg (CHR '':'')) = 2" and snd: "Split seg (CHR '':'') ! 1 = []"
    by (simp_all add: instanceId_def Let_def split: if_splits)
  from len obtain a b where ab: "Split seg (CHR '':'') = [a, b]"
    by (cases "Split seg (CHR '':'')" rule: list.exhaust)
       (auto simp: length_Suc_conv)
  with snd have "b = []" by simp
  with Split_two_conv [OF ab] have "seg = a @ '':''" "CHR '':'' \<notin> set a" by simp_all
  with seg show "\<exists>a. vars ''id'' = Some (a @ '':'') \<and> CHR '':'' \<notin> set a" by blast
next
  assume "\<exists>a. vars ''id'' = Some (a @ '':'') \<and> CHR '':'' \<notin> set a"
  then obtain a where seg: "vars ''id'' = Some (a @ '':'')" and a: "CHR '':'' \<notin> set a"
    by blast
  have "Split (a @ CHR '':'' # []) (CHR '':'') = [a, []]"
    by (rule Split_two) (use a in simp_all)
  then have "Split (a @ '':'') (CHR '':'') = [a, []]" by simp
  with seg show "instanceId vars = []"
    by (simp add: instanceId_def)
qed

text \<open>
  The claim C4 as it is written (the \<open>Id'\<close> of every Point sent is non-empty, also for a
  segment \<^verbatim>\<open><prefix>:\<close>) fails: the path \<^verbatim>\<open>/sensors/airgradient:/measures\<close> is of the route,
  its \<^verbatim>\<open>id\<close> is \<^verbatim>\<open>airgradient:\<close>, the split has the two components \<^verbatim>\<open>airgradient\<close> and the
  empty string, and the Point is sent with the empty \<open>Id'\<close>.
\<close>

theorem C4_counterexample:
  "routeVars ''/sensors/airgradient:/measures'' = Some [''id'' \<mapsto> ''airgradient:''] \<and>
   mainHandler sampleLib
     \<lparr>Body = Some (JSONText exampleBody), Vars = [''id'' \<mapsto> ''airgradient:''], Now = Time 0\<rparr> [] =
     (noResponse,
      [\<lparr>Id' = [], Ts = Time 0, Wifi = - 64, C02 = 419, PM01 = 4, PM02 = 7, PM10 = 7,
        PM003 = 834, TVOC = 3, NOX = 2, Temp = Float64 0x404008F5C28F5C29, Hum = 56\<rparr>])"
  by (simp add: routeVars_def
        mainHandler_decoded [OF _ Unmarshal_exampleBody [OF sampleLib_float]] instanceId_def)

text \<open>
  Claim C4, amended. The \<open>Id'\<close> of a Point the handler sends is empty exactly when the
  \<^verbatim>\<open>id\<close> variable is a prefix without a colon followed by one colon and nothing more; for
  every other segment, and without the variable, it is non-empty.
\<close>

theorem C4_sensor_identifier_empty:
  assumes "mainHandler L r ch = (resp, ch')" and "ch' \<noteq> ch"
  shows "\<exists>p. ch' = ch @ [p] \<and>
           (Id' p = [] \<longleftrightarrow> (\<exists>a. Vars r ''id'' = Some (a @ '':'') \<and> CHR '':'' \<notin> set a))"
proof -
  from mainHandler_sent [OF assms] obtain b d where
    "Body r = Some b" and
    p: "ch' = ch @ [d\<lparr>Id' := instanceId (Vars r), Ts := Now r\<rparr>]"
    by blast
  let ?p = "d\<lparr>Id' := instanceId (Vars r), Ts := Now r\<rparr>"
  have "Id' ?p = instanceId (Vars r)" by simp
  then have "Id' ?p = [] \<longleftrightarrow> (\<exists>a. Vars r ''id'' = Some (a @ '':'') \<and> CHR '':'' \<notin> set a)"
    by (simp only: instanceId_empty_iff)
  with p show ?thesis by blast
qed

theorem C4_sensor_identifier_empty_witness:
  "Id' (hd (snd (mainHandler sampleLib (exampleRequest (Time 0)) []))) \<noteq> []"
proof -
  obtain resp ch' where h: "mainHandler sampleLib (exampleRequest (Time 0)) [] = (resp, ch')"
    by (cases "mainHandler sampleLib (exampleRequest (Time 0)) []")
  have ne: "ch' \<noteq> []"
    using h by (auto simp: example_handled)
  from C4_sensor_identifier_empty [OF h ne] obtain p where
    p: "ch' = [] @ [p]" and
    e: "Id' p = [] \<longleftrightarrow>
        (\<exists>a. Vars (exampleRequest (Time 0)) ''id'' = Some (a @ '':'') \<and> CHR '':'' \<notin> set a)"
    by blast
  have "\<not> (\<exists>a. Vars (exampleRequest (Time 0)) ''id'' = Some (a @ '':'') \<and> CHR '':'' \<notin> set a)"
  proof
    assume "\<exists>a. Vars (exampleRequest (Time 0)) ''id'' = Some (a @ '':'') \<and> CHR '':'' \<notin> set a"
    then obtain a where "''airgradient:office-1'' = a @ '':''"
      by (auto simp: exampleRequest_def)
    then have "last ''airgradient:office-1'' = last (a @ '':'')" by simp
    then show False by simp
  qed
  with e have "Id' p \<noteq> []" by simp
  with p h show ?thesis by simp
qed

section \<open>The timestamp\<close>

lemma Unmarshal_Ts:
  "ParseTime L s = Some t \<Longrightarrow>
   Unmarshal L (JSONText (JObject [(''Ts'', JString s)])) zeroData = Inr (zeroData\<lparr>Ts := t\<rparr>)"
  by (simp add: Unmarshal_def storeValue_def storeTime_def findField_def structFields_def)

text \<open>
  Claim C5. For every request whose body is read and decoded, the handler sends one Point
  and its \<open>Ts\<close> is the clock value of the request, whatever the body holds. The body
  can reach the field: an object with the key \<^verbatim>\<open>Ts\<close> and a time the library parses decodes
  into a struct with that time; the handler then overwrites it.
\<close>

theorem C5_receipt_time:
  assumes "Body r = Some b" and "Unmarshal L b zeroData = Inr d"
  shows "(\<exists>p. mainHandler L r ch = (noResponse, ch @ [p]) \<and> Ts p = Now r) \<and>
         (\<forall>s t. ParseTime L s = Some t \<longrightarrow>
            Unmarshal L (JSONText (JObject [(''Ts'', JString s)])) zeroData =
              Inr (zeroData\<lparr>Ts := t\<rparr>))"
proof
  have "mainHandler L r ch = (noResponse, ch @ [d\<lparr>Id' := instanceId (Vars r), Ts := Now r\<rparr>])"
    using assms by (rule mainHandler_decoded)
  moreover have "Ts (d\<lparr>Id' := instanceId (Vars r), Ts := Now r\<rparr>) = Now r"
    by simp
  ultimately show "\<exists>p. mainHandler L r ch = (noResponse, ch @ [p]) \<and> Ts p = Now r"
    by blast
  show "\<forall>s t. ParseTime L s = Some t \<longrightarrow>
          Unmarshal L (JSONText (JObject [(''Ts'', JString s)])) zeroData =
            Inr (zeroData\<lparr>Ts := t\<rparr>)"
    by (simp add: Unmarshal_Ts)
qed

theorem C5_receipt_time_witness:
  "Unmarshal sampleLib (JSONText (JObject [(''Ts'', JString ''2024-05-01T12:00:00Z'')])) zeroData =
     Inr (zeroData\<lparr>Ts := Time 63850161600000000000\<rparr>) \<and>
   Ts (hd (snd (mainHandler sampleLib
     \<lparr>Body = Some (JSONText (JObject [(''Ts'', JString ''2024-05-01T12:00:00Z'')])),
      Vars = [''id'' \<mapsto> ''airgradient:office-1''], Now = Time 7\<rparr> []))) = Time 7"
proof -
  let ?b = "JSONText (JObject [(''Ts'', JString ''2024-05-01T12:00:00Z'')])"
  let ?r = "\<lparr>Body = Some ?b, Vars = [''id'' \<mapsto> ''airgradient:office-1''], Now = Time 7\<rparr>"
  have t: "ParseTime sampleLib ''2024-05-01T12:00:00Z'' = Some (Time 63850161600000000000)"
    by (simp add: sampleLib_def)
  have b: "Body ?r = Some ?b" by simp
  have u: "Unmarshal sampleLib ?b zeroData = Inr (zeroData\<lparr>Ts := Time 63850161600000000000\<rparr>)"
    using t by (rule Unmarshal_Ts)
  from C5_receipt_time [OF b u, of "[]"] obtain p where
    "mainHandler sampleLib ?r [] = (noResponse, [] @ [p])" and "Ts p = Now ?r"
    by blast
  then have "Ts (hd (snd (mainHandler sampleLib ?r []))) = Time 7" by simp
  with u show ?thesis by blast
qed

section \<open>InfluxConnect\<close>

lemma writeDest_error_iff:
  "(writeDest c = Inl e) =
   (Bucket (InfluxDB c) = [] \<and>
    \<not> (Database (InfluxDB c) \<noteq> [] \<and> RetentionPolicy (InfluxDB c) \<noteq> []))"
  by (cases e) (auto simp: writeDest_def)

lemma InfluxConnect_error_iff:
  "(InfluxConnect c = Inl e) = (writeDest c = Inl e)"
  by (auto simp: InfluxConnect_def Let_def split: sum.splits)

lemma InfluxConnect_ok:
  "writeDest c = Inr dest \<Longrightarrow>
   \<exists>cl c1. InfluxConnect c = Inr (cl, \<lparr>org = Organization (InfluxDB c), bucket = dest\<rparr>, c1)"
  by (simp add: InfluxConnect_def Let_def)

text \<open>
  Claim C6. \<open>InfluxConnect\<close> returns the configuration error exactly when the bucket is
  empty and the database and the retention policy are not both set; \<open>main\<close> then ends
  with the fatal log, and it reaches the server only when \<open>InfluxConnect\<close> returns no
  error. A bucket that is set is the destination, also when database and retention
  policy are set; with no bucket and both of them set the destination is
  \<^verbatim>\<open>database/retentionPolicy\<close>.
\<close>

theorem C6_write_destination:
  "((InfluxConnect c = Inl InfluxWriteConfigError) =
      (Bucket (InfluxDB c) = [] \<and>
       \<not> (Database (InfluxDB c) \<noteq> [] \<and> RetentionPolicy (InfluxDB c) \<noteq> []))) \<and>
   (\<forall>e. InfluxConnect c = Inl e \<longrightarrow>
      main L (Inr c) rs = Fatal ''failed to initialize InfluxDB connection'') \<and>
   ((\<exists>sv. main L (Inr c) rs = Flushed sv) = (InfluxConnect c \<noteq> Inl InfluxWriteConfigError)) \<and>
   (Bucket (InfluxDB c) \<noteq> [] \<longrightarrow>
      (\<exists>cl api c1. InfluxConnect c = Inr (cl, api, c1) \<and> bucket api = Bucket (InfluxDB c))) \<and>
   (Bucket (InfluxDB c) = [] \<and> Database (InfluxDB c) \<noteq> [] \<and> RetentionPolicy (InfluxDB c) \<noteq> [] \<longrightarrow>
      (\<exists>cl api c1. InfluxConnect c = Inr (cl, api, c1) \<and>
         bucket api = Database (InfluxDB c) @ ''/'' @ RetentionPolicy (InfluxDB c)))"
proof (intro conjI)
  show "(InfluxConnect c = Inl InfluxWriteConfigError) =
      (Bucket (InfluxDB c) = [] \<and>
       \<not> (Database (InfluxDB c) \<noteq> [] \<and> RetentionPolicy (InfluxDB c) \<noteq> []))"
    by (simp only: InfluxConnect_error_iff writeDest_error_iff)
  show "\<forall>e. InfluxConnect c = Inl e \<longrightarrow>
      main L (Inr c) rs = Fatal ''failed to initialize InfluxDB connection''"
    by (simp add: main_def)
  show "(\<exists>sv. main L (Inr c) rs = Flushed sv) = (InfluxConnect c \<noteq> Inl InfluxWriteConfigError)"
  proof (cases "InfluxConnect c")
    case (Inl e)
    then show ?thesis by (cases e) (simp add: main_def)
  next
    case (Inr x)
    then show ?thesis by (cases x) (simp add: main_def split: prod.splits)
  qed
  show "Bucket (InfluxDB c) \<noteq> [] \<longrightarrow>
      (\<exists>cl api c1. InfluxConnect c = Inr (cl, api, c1) \<and> bucket api = Bucket (InfluxDB c))"
  proof
    assume "Bucket (InfluxDB c) \<noteq> []"
    then have "writeDest c = Inr (Bucket (InfluxDB c))" by (simp add: writeDest_def)
    from InfluxConnect_ok [OF this] show
      "\<exists>cl api c1. InfluxConnect c = Inr (cl, api, c1) \<and> bucket api = Bucket (InfluxDB c)"
      by force
  qed
  show "Bucket (InfluxDB c) = [] \<and> Database (InfluxDB c) \<noteq> [] \<and> RetentionPolicy (InfluxDB c) \<noteq> [] \<longrightarrow>
      (\<exists>cl api c1. InfluxConnect c = Inr (cl, api, c1) \<and>
         bucket api = Database (InfluxDB c) @ ''/'' @ RetentionPolicy (InfluxDB c))"
  proof
    assume "Bucket (InfluxDB c) = [] \<and> Database (InfluxDB c) \<noteq> [] \<and> RetentionPolicy (InfluxDB c) \<noteq> []"
    then have "writeDest c = Inr (Database (InfluxDB c) @ ''/'' @ RetentionPolicy (InfluxDB c))"
      by (simp add: writeDest_def)
    from InfluxConnect_ok [OF this] show
      "\<exists>cl api c1. InfluxConnect c = Inr (cl, api, c1) \<and>
         bucket api = Database (InfluxDB c) @ ''/'' @ RetentionPolicy (InfluxDB c)"
      by force
  qed
qed

theorem C6_write_destination_witness:
  "InfluxConnect (exampleConfig\<lparr>InfluxDB := (InfluxDB exampleConfig)\<lparr>Bucket := [], RetentionPolicy := []\<rparr>\<rparr>) =
     Inl InfluxWriteConfigError \<and>
   main sampleLib
     (Inr (exampleConfig\<lparr>InfluxDB := (InfluxDB exampleConfig)\<lparr>Bucket := [], RetentionPolicy := []\<rparr>\<rparr>))
     [exampleRequest (Time 0)] = Fatal ''failed to initialize InfluxDB connection'' \<and>
   map_sum id (\<lambda>(cl, api, c1). bucket api) (InfluxConnect exampleConfig) = Inr ''mybucket'' \<and>
   map_sum id (\<lambda>(cl, api, c1). bucket api)
     (InfluxConnect (exampleConfig\<lparr>InfluxDB := (InfluxDB exampleConfig)\<lparr>Bucket := []\<rparr>\<rparr>)) =
     Inr ''mydb/autogen''"
proof -
  let ?none = "exampleConfig\<lparr>InfluxDB := (InfluxDB exampleConfig)\<lparr>Bucket := [], RetentionPolicy := []\<rparr>\<rparr>"
  let ?v1 = "exampleConfig\<lparr>InfluxDB := (InfluxDB exampleConfig)\<lparr>Bucket := []\<rparr>\<rparr>"
  note n = C6_write_destination [of ?none sampleLib "[exampleRequest (Time 0)]"]
  have 1: "InfluxConnect ?none = Inl InfluxWriteConfigError"
    using n by (simp add: exampleConfig_def)
  with n have 2: "main sampleLib (Inr ?none) [exampleRequest (Time 0)] =
      Fatal ''failed to initialize InfluxDB connection''"
    by blast
  have "Bucket (InfluxDB exampleConfig) \<noteq> []" by (simp add: exampleConfig_def)
  with C6_write_destination [of exampleConfig sampleLib "[]"]
  obtain cl api c1 where "InfluxConnect exampleConfig = Inr (cl, api, c1)"
      "bucket api = Bucket (InfluxDB exampleConfig)"
    by blast
  then have 3: "map_sum id (\<lambda>(cl, api, c1). bucket api) (InfluxConnect exampleConfig) = Inr ''mybucket''"
    by (simp add: exampleConfig_def)
  have "Bucket (InfluxDB ?v1) = [] \<and> Database (InfluxDB ?v1) \<noteq> [] \<and> RetentionPolicy (InfluxDB ?v1) \<noteq> []"
    by (simp add: exampleConfig_def)
  with C6_write_destination [of ?v1 sampleLib "[]"]
  obtain cl' api' c1' where "InfluxConnect ?v1 = Inr (cl', api', c1')"
      "bucket api' = Database (InfluxDB ?v1) @ ''/'' @ RetentionPolicy (InfluxDB ?v1)"
    by blast
  then have 4: "map_sum id (\<lambda>(cl, api, c1). bucket api) (InfluxConnect ?v1) = Inr ''mydb/autogen''"
    by (simp add: exampleConfig_def)
  from 1 2 3 4 show ?thesis by blast
qed

text \<open>
  Claim C7. The credential handed to the client is the token whenever a token is set,
  also when username and password are set; without a token and with both of them set it
  is \<^verbatim>\<open>username:password\<close>.
\<close>

theorem C7_credential:
  assumes "InfluxConnect c = Inr (cl, api, c1)"
  shows "(Token (InfluxDB c) \<noteq> [] \<longrightarrow> authToken cl = Token (InfluxDB c)) \<and>
         (Token (InfluxDB c) = [] \<and> Username (InfluxDB c) \<noteq> [] \<and> Password (InfluxDB c) \<noteq> [] \<longrightarrow>
            authToken cl = Username (InfluxDB c) @ '':'' @ Password (InfluxDB c))"
  using assms
  by (auto simp: InfluxConnect_def Let_def auth_def split: sum.splits if_splits)

theorem C7_credential_witness:
  "map_sum id (\<lambda>(cl, api, c1). authToken cl) (InfluxConnect exampleConfig) = Inr ''mytoken'' \<and>
   map_sum id (\<lambda>(cl, api, c1). authToken cl)
     (InfluxConnect (exampleConfig\<lparr>InfluxDB := (InfluxDB exampleConfig)\<lparr>Token := []\<rparr>\<rparr>)) =
     Inr ''myuser:mypass''"
proof -
  let ?v1 = "exampleConfig\<lparr>InfluxDB := (InfluxDB exampleConfig)\<lparr>Token := []\<rparr>\<rparr>"
  obtain cl api c1 where a: "InfluxConnect exampleConfig = Inr (cl, api, c1)"
    by (simp add: InfluxConnect_def Let_def writeDest_def exampleConfig_def)
  obtain cl' api' c1' where b: "InfluxConnect ?v1 = Inr (cl', api', c1')"
    by (simp add: InfluxConnect_def Let_def writeDest_def exampleConfig_def)
  from C7_credential [OF a] have "authToken cl = ''mytoken''"
    by (simp add: exampleConfig_def)
  moreover from C7_credential [OF b] have "authToken cl' = ''myuser:mypass''"
    by (simp add: exampleConfig_def)
  ultimately show ?thesis using a b by simp
qed

lemma unat_thousand:
  fixes w :: "64 word"
  assumes "unat w \<le> 18446744073709551"
  shows "unat (1000 * w) = 1000 * unat w"
proof -
  have "unat (1000 * w) = (unat (1000 :: 64 word) * unat w) mod 2 ^ 64"
    by (simp add: unat_word_ariths)
  also have "\<dots> = (1000 * unat w) mod 18446744073709551616"
    by simp
  also have "\<dots> = 1000 * unat w"
    using assms by simp
  finally show ?thesis .
qed

text \<open>Below the overflow of the multiplication the client is given the configured
  seconds, in milliseconds, and 30 seconds for an interval of zero.\<close>

lemma flushInterval_in_range:
  assumes "InfluxConnect c = Inr (cl, api, c1)"
    and le: "unat (FlushInterval (InfluxDB c)) \<le> 18446744073709551"
  shows "unat (flushInterval cl) =
           1000 * (if FlushInterval (InfluxDB c) = 0 then 30 else unat (FlushInterval (InfluxDB c)))"
proof -
  have w: "flushInterval cl =
      1000 * (if FlushInterval (InfluxDB c) = 0 then 30 else FlushInterval (InfluxDB c))"
    using assms(1) by (auto simp: InfluxConnect_def Let_def split: sum.splits)
  show ?thesis
  proof (cases "FlushInterval (InfluxDB c) = 0")
    case True
    with w show ?thesis by simp
  next
    case False
    with w unat_thousand [OF le] show ?thesis by simp
  qed
qed

text \<open>
  Claim C8. The client is to be configured with the configured number of seconds (30 for
  an interval of zero), the option being 1000 times the interval, in milliseconds;
  \<^verbatim>\<open>config.yaml.example\<close> documents the setting as a time in seconds. The code computes
  \<^verbatim>\<open>1000 * config.InfluxDB.FlushInterval\<close> in \<^verbatim>\<open>uint\<close> with no check of the product, and
  misses the claim where the product overflows: for the example configuration with a
  flush interval of 18446744073709552 seconds, \<open>InfluxConnect\<close> returns no error and hands
  the client 384 milliseconds.
\<close>

theorem C8_overflow:
  "InfluxConnect
     (exampleConfig\<lparr>InfluxDB := (InfluxDB exampleConfig)\<lparr>FlushInterval := 18446744073709552\<rparr>\<rparr>) =
   Inr (\<lparr>serverURL = ''https://127.0.0.1:8086'', authToken = ''mytoken'', flushInterval = 384,
         insecureSkipVerify = False\<rparr>,
        \<lparr>org = ''myorg'', bucket = ''mybucket''\<rparr>,
        exampleConfig\<lparr>InfluxDB := (InfluxDB exampleConfig)\<lparr>FlushInterval := 18446744073709552\<rparr>\<rparr>)"
  by (simp add: InfluxConnect_def writeDest_def auth_def exampleConfig_def)

section \<open>Rounding to the nearest float64\<close>



















lemma roundBinary64_zero: "roundBinary64 0 d = Some (0, - 1074)"
  by (simp add: roundBinary64_def)


section \<open>The bits of a float64 and its value\<close>





section \<open>What ParseFloat returns\<close>


lemma magnitude_nonneg [simp]: "0 \<le> magnitude x"
  by (simp add: magnitude_def)








section \<open>ParseFloat on the literals of the examples\<close>



















section \<open>The schema and the struct\<close>










section \<open>Decoding a plain body\<close>







section \<open>Decoding and re-encoding\<close>

















section \<open>The measurement prefix\<close>

lemma writeDest_prefix:
  "writeDest (c\<lparr>InfluxDB := (InfluxDB c)\<lparr>MeasurementPrefix := p\<rparr>\<rparr>) = writeDest c"
  by (simp add: writeDest_def)

lemma InfluxConnect_prefix:
  "InfluxConnect (c\<lparr>InfluxDB := (InfluxDB c)\<lparr>MeasurementPrefix := p\<rparr>\<rparr>) =
     (case InfluxConnect c of
        Inl e \<Rightarrow> Inl e
      | Inr (cl, api, c1) \<Rightarrow>
          Inr (cl, api, c1\<lparr>InfluxDB := (InfluxDB c1)\<lparr>MeasurementPrefix := p\<rparr>\<rparr>))"
  by (simp add: InfluxConnect_def writeDest_prefix Let_def auth_def split: sum.splits)

lemma main_written:
  assumes "main L (Inr c) rs = Flushed sv"
  shows "written sv = map influxPoint (snd (serve L rs []))"
  using assms
  by (auto simp: main_def submitResults_map split: sum.splits prod.splits)

lemma example_main:
  "main sampleLib (Inr exampleConfig) [exampleRequest (Time 9)] =
     Flushed
       \<lparr>listenAddr = ''0.0.0.0:19999'',
        influxClient =
          \<lparr>serverURL = ''https://127.0.0.1:8086'', authToken = ''mytoken'', flushInterval = 30000,
           insecureSkipVerify = False\<rparr>,
        writeAPI = \<lparr>org = ''myorg'', bucket = ''mybucket''\<rparr>,
        responses = [noResponse],
        written =
          [influxPoint
             \<lparr>Id' = ''office-1'', Ts = Time 9, Wifi = - 64, C02 = 419, PM01 = 4, PM02 = 7,
              PM10 = 7, PM003 = 834, TVOC = 3, NOX = 2, Temp = Float64 0x404008F5C28F5C29,
              Hum = 56\<rparr>]\<rparr>"
  by (simp add: main_def InfluxConnect_def Let_def writeDest_def auth_def exampleConfig_def
        example_handled)

text \<open>
  Claim C10. A run with a configuration and a run with the same configuration but
  another \<open>MeasurementPrefix\<close> end alike: the same exit, the same client and write API,
  the same responses and the same points written; and the measurement of every point
  written is exactly \<^verbatim>\<open>air_quality\<close>.
\<close>

theorem C10_prefix_unused:
  "main L (Inr (c\<lparr>InfluxDB := (InfluxDB c)\<lparr>MeasurementPrefix := p\<rparr>\<rparr>)) rs = main L (Inr c) rs \<and>
   (\<forall>sv. main L (Inr c) rs = Flushed sv \<longrightarrow>
      (\<forall>w \<in> set (written sv). measurement w = ''air_quality''))"
proof
  show "main L (Inr (c\<lparr>InfluxDB := (InfluxDB c)\<lparr>MeasurementPrefix := p\<rparr>\<rparr>)) rs = main L (Inr c) rs"
    by (simp add: main_def InfluxConnect_prefix split: sum.splits prod.splits)
  show "\<forall>sv. main L (Inr c) rs = Flushed sv \<longrightarrow>
      (\<forall>w \<in> set (written sv). measurement w = ''air_quality'')"
  proof (intro allI impI)
    fix sv
    assume "main L (Inr c) rs = Flushed sv"
    then have "written sv = map influxPoint (snd (serve L rs []))"
      by (rule main_written)
    then show "\<forall>w \<in> set (written sv). measurement w = ''air_quality''"
      by (auto simp: influxPoint_def NewPoint_def)
  qed
qed

theorem C10_prefix_unused_witness:
  "main sampleLib
     (Inr (exampleConfig\<lparr>InfluxDB := (InfluxDB exampleConfig)\<lparr>MeasurementPrefix := ''other_''\<rparr>\<rparr>))
     [exampleRequest (Time 9)] =
   main sampleLib (Inr exampleConfig) [exampleRequest (Time 9)] \<and>
   map measurement
     (case main sampleLib (Inr exampleConfig) [exampleRequest (Time 9)] of
        Flushed sv \<Rightarrow> written sv
      | Fatal msg \<Rightarrow> []) = [''air_quality'']"
proof -
  note T = C10_prefix_unused [where L = sampleLib and c = exampleConfig and p = "''other_''"
      and rs = "[exampleRequest (Time 9)]"]
  from T have 1: "main sampleLib
     (Inr (exampleConfig\<lparr>InfluxDB := (InfluxDB exampleConfig)\<lparr>MeasurementPrefix := ''other_''\<rparr>\<rparr>))
     [exampleRequest (Time 9)] =
   main sampleLib (Inr exampleConfig) [exampleRequest (Time 9)]"
    by blast
  from T example_main have
    "measurement (influxPoint
             \<lparr>Id' = ''office-1'', Ts = Time 9, Wifi = - 64, C02 = 419, PM01 = 4, PM02 = 7,
              PM10 = 7, PM003 = 834, TVOC = 3, NOX = 2, Temp = Float64 0x404008F5C28F5C29,
              Hum = 56\<rparr>) = ''air_quality''"
    by simp
  with example_main have 2: "map measurement
     (case main sampleLib (Inr exampleConfig) [exampleRequest (Time 9)] of
        Flushed sv \<Rightarrow> written sv
      | Fatal msg \<Rightarrow> []) = [''air_quality'']"
    by simp
  from 1 2 show ?thesis by blast
qed

end
